theory Spec2Isabelle
  imports Complex_Main "HOL-Library.AList"
begin

section \<open>JavaScript values\<close>

text \<open>
  The relay (\<^verbatim>\<open>src/server.js\<close>) receives text frames, decodes them with
  \<^verbatim>\<open>JSON.parse\<close> and reads properties of the decoded value. A decoded value is a
  JSON value. A JSON number is a double that is never NaN: a finite value (a rational
  here; \<open>-0\<close> and \<open>0\<close> are both \<open>Finite 0\<close>, both falsy) or an infinity
  (\<^verbatim>\<open>JSON.parse("1e999")\<close>). An object is the list of its own properties in insertion
  order; the first binding of a key is the effective one.
\<close>

datatype number = Finite rat | PosInfinity | NegInfinity

datatype json =
    JNull
  | JBool bool
  | JNum number
  | JStr string
  | JArr "json list"
  | JObj "(string \<times> json) list"

text \<open>
  Reading a property \<^verbatim>\<open>v.k\<close> of a decoded, non-null value, for the property names the
  relay reads (\<open>type\<close>, \<open>id\<close>, \<open>from\<close>, \<open>to\<close>, \<open>timestamp\<close>, \<open>signature\<close>,
  \<open>payload\<close>, \<open>readyState\<close>): an object answers with its own property, every other value
  with \<^verbatim>\<open>undefined\<close> (\<open>None\<close>), since no prototype defines one of these names.
\<close>

fun getprop :: "json \<Rightarrow> string \<Rightarrow> json option" where
  "getprop (JObj kvs) k = map_of kvs k"
| "getprop _ k = None"

text \<open>JavaScript truthiness of a possibly undefined JSON value (\<^verbatim>\<open>!v\<close> is its negation).\<close>

fun truthy :: "json option \<Rightarrow> bool" where
  "truthy None = False"
| "truthy (Some JNull) = False"
| "truthy (Some (JBool b)) = b"
| "truthy (Some (JNum n)) = (n \<noteq> Finite 0)"
| "truthy (Some (JStr s)) = (s \<noteq> [])"
| "truthy (Some (JArr xs)) = True"
| "truthy (Some (JObj kvs)) = True"

subsection \<open>The runtime's built-in functions\<close>

text \<open>
  The built-ins of the JavaScript runtime and of Node's \<^verbatim>\<open>crypto\<close> module are not code of
  the relay; the model takes them as a parameter.
  \<^item> \<open>JSON_parse\<close>: \<^verbatim>\<open>JSON.parse\<close>; \<open>None\<close> is a thrown SyntaxError.
  \<^item> \<open>JSON_stringify\<close>: \<^verbatim>\<open>JSON.stringify\<close> of a JSON value.
  \<^item> \<open>ToString\<close>: the string conversion of a value that is not a string; \<open>None\<close> is a
    thrown TypeError (an object whose \<open>toString\<close> property is not callable).
  \<^item> \<open>StringToNumber\<close>: the numeric value of a string; \<open>None\<close> is NaN.
  \<^item> \<open>Date_parse\<close>: \<^verbatim>\<open>Date.parse\<close>, milliseconds since the epoch; \<open>None\<close> is NaN.
  \<^item> \<open>toISOString\<close>: \<^verbatim>\<open>Date.prototype.toISOString\<close> of a valid time value.
  \<^item> \<open>hmac\<close>: \<^verbatim>\<open>crypto.createHmac('sha256', SHARED_SECRET).update(s).digest('base64')\<close>.
  \<^item> \<open>double_minus\<close>: the difference of two finite numbers as double arithmetic gives it
    (the exact difference, rounded).
\<close>

record runtime =
  JSON_parse :: "string \<Rightarrow> json option"
  JSON_stringify :: "json \<Rightarrow> string"
  ToString :: "json \<Rightarrow> string option"
  StringToNumber :: "string \<Rightarrow> number option"
  Date_parse :: "string \<Rightarrow> int option"
  toISOString :: "int \<Rightarrow> string"
  hmac :: "string \<Rightarrow> string"
  double_minus :: "rat \<Rightarrow> rat \<Rightarrow> rat"

text \<open>
  A value inside a template literal (\<^verbatim>\<open>`${v}`\<close>): a string is itself,
  \<^verbatim>\<open>undefined\<close> prints as \<open>undefined\<close>, anything else goes through the runtime's conversion.
\<close>

fun template :: "runtime \<Rightarrow> json option \<Rightarrow> string option" where
  "template rt None = Some ''undefined''"
| "template rt (Some (JStr s)) = Some s"
| "template rt (Some v) = ToString rt v"

subsection \<open>Dates\<close>

text \<open>
  A Date is its time value: integer milliseconds since the epoch, or NaN (\<open>None\<close>, an
  Invalid Date). \<open>TimeClip\<close> is the standard's clipping of a number to a time value.
\<close>

definition TimeClip :: "number \<Rightarrow> int option" where
  "TimeClip n =
     (case n of
        Finite r \<Rightarrow>
          if \<bar>r\<bar> \<le> 8640000000000000
          then Some (if 0 \<le> r then \<lfloor>r\<rfloor> else \<lceil>r\<rceil>)
          else None
      | PosInfinity \<Rightarrow> None
      | NegInfinity \<Rightarrow> None)"

text \<open>
  \<^verbatim>\<open>new Date(v)\<close> for a possibly undefined JSON value. The outer \<open>None\<close> is a thrown
  TypeError (the conversion of an object to a primitive failed), the inner one NaN.
\<close>

fun newDate :: "runtime \<Rightarrow> json option \<Rightarrow> int option option" where
  "newDate rt None = Some None"
| "newDate rt (Some JNull) = Some (Some 0)"
| "newDate rt (Some (JBool b)) = Some (Some (if b then 1 else 0))"
| "newDate rt (Some (JNum n)) = Some (TimeClip n)"
| "newDate rt (Some (JStr s)) = Some (Date_parse rt s)"
| "newDate rt (Some v) = map_option (Date_parse rt) (ToString rt v)"

section \<open>Message codec\<close>

text \<open>
  \<^verbatim>\<open>signMessage\<close>: the HMAC of
  \<^verbatim>\<open>`${type}|${timestamp}|${from}|${to}|${JSON.stringify(payload || {})}`\<close>.
  \<open>None\<close> when a template conversion throws.
\<close>

definition payload_or_empty :: "json option \<Rightarrow> json" where
  "payload_or_empty p = (case p of Some v \<Rightarrow> (if truthy p then v else JObj []) | None \<Rightarrow> JObj [])"

definition signMessage :: "runtime \<Rightarrow> json \<Rightarrow> string option" where
  "signMessage rt message =
     Option.bind (template rt (getprop message ''type'')) (\<lambda>ty.
     Option.bind (template rt (getprop message ''timestamp'')) (\<lambda>ts.
     Option.bind (template rt (getprop message ''from'')) (\<lambda>fr.
     Option.bind (template rt (getprop message ''to'')) (\<lambda>tt.
       Some (hmac rt (ty @ ''|'' @ ts @ ''|'' @ fr @ ''|'' @ tt @ ''|'' @
                      JSON_stringify rt (payload_or_empty (getprop message ''payload''))))))))"

text \<open>
  \<^verbatim>\<open>Math.abs(now - messageTime) / 1000 / 60\<close>, in minutes; \<open>None\<close> is NaN. The source
  computes it in double precision; the quotient is taken exactly here. The comparison with
  5 has the same outcome in both, because 300 and 5 are doubles and rounding is monotone.
\<close>

definition timeDiff :: "int \<Rightarrow> int option \<Rightarrow> rat option" where
  "timeDiff now messageTime = map_option (\<lambda>t. \<bar>of_int (now - t)\<bar> / 1000 / 60) messageTime"

text \<open>\<^verbatim>\<open>x > y\<close> on numbers: false when \<open>x\<close> is NaN.\<close>

definition js_gt :: "rat option \<Rightarrow> rat \<Rightarrow> bool" where
  "js_gt x y = (case x of None \<Rightarrow> False | Some a \<Rightarrow> y < a)"

text \<open>The result object of \<^verbatim>\<open>validateMessage\<close>: \<^verbatim>\<open>{valid: true, message}\<close> or
  \<^verbatim>\<open>{valid: false, error}\<close>.\<close>

datatype validation = Valid json | Invalid string

text \<open>
  \<^verbatim>\<open>validateMessage(message)\<close> at clock reading \<open>now\<close>. Every exception inside the
  \<^verbatim>\<open>try\<close> block (a syntax error, a property read on \<^verbatim>\<open>null\<close>, a failed conversion)
  ends in the \<^verbatim>\<open>catch\<close> branch.
\<close>

definition validateMessage :: "runtime \<Rightarrow> int \<Rightarrow> string \<Rightarrow> validation" where
  "validateMessage rt now message =
     (case JSON_parse rt message of
        None \<Rightarrow> Invalid ''Invalid JSON''
      | Some JNull \<Rightarrow> Invalid ''Invalid JSON''
      | Some parsed \<Rightarrow>
          if \<not> truthy (getprop parsed ''type'') \<or> \<not> truthy (getprop parsed ''id'') \<or>
             \<not> truthy (getprop parsed ''from'') \<or> \<not> truthy (getprop parsed ''to'') \<or>
             \<not> truthy (getprop parsed ''timestamp'')
          then Invalid ''Missing required fields''
          else
            (case newDate rt (getprop parsed ''timestamp'') of
               None \<Rightarrow> Invalid ''Invalid JSON''
             | Some messageTime \<Rightarrow>
                 if js_gt (timeDiff now messageTime) 5
                 then Invalid ''Message timestamp too old''
                 else if truthy (getprop parsed ''signature'')
                 then
                   (case signMessage rt parsed of
                      None \<Rightarrow> Invalid ''Invalid JSON''
                    | Some expectedSignature \<Rightarrow>
                        if getprop parsed ''signature'' \<noteq> Some (JStr expectedSignature)
                        then Invalid ''Invalid signature''
                        else Valid parsed)
                 else Valid parsed))"

text \<open>
  \<^verbatim>\<open>createMessage(type, from, to, payload)\<close>. The two values it draws from the
  environment, \<^verbatim>\<open>crypto.randomUUID()\<close> and \<^verbatim>\<open>new Date()\<close>, are the pair \<open>fresh\<close>.
\<close>

type_synonym fresh = "string \<times> int"

definition unsigned_message :: "runtime \<Rightarrow> fresh \<Rightarrow> string \<Rightarrow> string \<Rightarrow> string \<Rightarrow> json \<Rightarrow> (string \<times> json) list" where
  "unsigned_message rt fr type from to payload =
     [(''type'', JStr type),
      (''id'', JStr (fst fr)),
      (''timestamp'', JStr (toISOString rt (snd fr))),
      (''from'', JStr from),
      (''to'', JStr to),
      (''payload'', payload_or_empty (Some payload))]"

definition createMessage :: "runtime \<Rightarrow> fresh \<Rightarrow> string \<Rightarrow> string \<Rightarrow> string \<Rightarrow> json \<Rightarrow> json option" where
  "createMessage rt fr type from to payload =
     (let message = unsigned_message rt fr type from to payload in
      case signMessage rt (JObj message) of
        None \<Rightarrow> None
      | Some s \<Rightarrow> Some (JObj (message @ [(''signature'', JStr s)])))"

section \<open>The registry of connected servers\<close>

text \<open>
  An entry of \<^verbatim>\<open>connectedServers\<close> is the object \<^verbatim>\<open>serverInfo\<close> built at admission.
  \<^verbatim>\<open>handleServerRegister\<close> copies every property of an inbound payload into it with
  \<^verbatim>\<open>Object.assign\<close>, so each property holds either the value admission gave it
  (\<open>Native\<close>: a Date as its time value, the socket as the number of its connection) or a
  JSON value that a payload put there. \<open>serverId\<close>, \<open>version\<close> and \<open>capabilities\<close> are
  JSON values from the start (\<open>version\<close> is \<^verbatim>\<open>undefined\<close>, \<open>None\<close>, without the header).
  These six are own properties of the object, so reading them never consults its
  prototype. \<open>prototype\<close> is \<open>None\<close> while the object has the prototype it was created
  with (\<^verbatim>\<open>Object.prototype\<close>) and the JSON value (an object, an array or \<^verbatim>\<open>null\<close>) a
  payload has replaced it with otherwise; \<open>others\<close> holds every further own property.
\<close>

datatype 'a field = Native 'a | Overwritten json

record serverInfo =
  serverId :: json
  version :: "json option"
  capabilities :: json
  connected :: "int field"
  lastSeen :: "int field"
  ws :: "nat field"
  others :: "(string \<times> json) list"
  prototype :: "json option"

text \<open>
  A JavaScript \<^verbatim>\<open>Map\<close> with string keys: the list of its entries in insertion order.
  \<^verbatim>\<open>set\<close> replaces the value of a key in place or appends a new entry, \<^verbatim>\<open>delete\<close>
  removes the entry of a key. A key that is not a string is equal to no key of the map.
  (The relay also creates a second map, \<^verbatim>\<open>serverSessions\<close>, and never uses it.)
\<close>

type_synonym registry = "(string \<times> serverInfo) list"

definition Map_set :: "string \<Rightarrow> 'v \<Rightarrow> (string \<times> 'v) list \<Rightarrow> (string \<times> 'v) list" where
  "Map_set k v m = AList.update k v m"

definition Map_delete :: "string \<Rightarrow> (string \<times> 'v) list \<Rightarrow> (string \<times> 'v) list" where
  "Map_delete k m = AList.delete k m"

definition Map_get :: "(string \<times> 'v) list \<Rightarrow> string \<Rightarrow> 'v option" where
  "Map_get m k = map_of m k"

definition Map_has :: "(string \<times> 'v) list \<Rightarrow> string \<Rightarrow> bool" where
  "Map_has m k = (k \<in> set (map fst m))"

definition Map_size :: "(string \<times> 'v) list \<Rightarrow> nat" where
  "Map_size m = length m"

definition Map_values :: "(string \<times> 'v) list \<Rightarrow> 'v list" where
  "Map_values m = map snd m"

definition Map_get_value :: "(string \<times> 'v) list \<Rightarrow> json option \<Rightarrow> 'v option" where
  "Map_get_value m k = (case k of Some (JStr s) \<Rightarrow> Map_get m s | _ \<Rightarrow> None)"

definition Map_has_value :: "(string \<times> 'v) list \<Rightarrow> json option \<Rightarrow> bool" where
  "Map_has_value m k = (case k of Some (JStr s) \<Rightarrow> Map_has m s | _ \<Rightarrow> False)"

section \<open>Sockets and the relay's state\<close>

text \<open>
  A socket of the \<open>ws\<close> library, as far as the relay uses it: its \<open>readyState\<close>, the
  frames handed to \<^verbatim>\<open>send\<close> while it was open, and the last \<^verbatim>\<open>close(code, reason)\<close>
  call. Sockets are numbered by connection. \<^verbatim>\<open>send\<close> on an open socket transmits; on a
  closing or closed socket it transmits nothing (no callback is passed, so nothing is
  reported); on a connecting socket it throws.
\<close>

datatype ready_state = CONNECTING | OPEN | CLOSING | CLOSED

record socket =
  readyState :: ready_state
  sent :: "string list"
  close_call :: "(nat \<times> string) option"

text \<open>
  What the \<^verbatim>\<open>connection\<close> handler has done for a socket: nothing yet (\<open>Connecting\<close>),
  installed the listeners that close over \<open>serverId\<close> (\<open>Authenticated\<close>, the state of
  section 4.4 of the specification), or the connection is over (\<open>Closed\<close>).
\<close>

datatype conn = Connecting | Authenticated string | Closed

record world =
  connectedServers :: registry
  sockets :: "nat \<Rightarrow> socket"
  conns :: "nat \<Rightarrow> conn"

text \<open>
  A handler returns the next state, or \<open>None\<close> when it throws: the exception is uncaught,
  and the \<^verbatim>\<open>uncaughtException\<close> listener ends the process.
\<close>

definition ws_send :: "nat \<Rightarrow> string \<Rightarrow> world \<Rightarrow> world option" where
  "ws_send c data w =
     (case readyState (sockets w c) of
        CONNECTING \<Rightarrow> None
      | OPEN \<Rightarrow> Some (w\<lparr>sockets := (sockets w)(c := (sockets w c)\<lparr>sent := sent (sockets w c) @ [data]\<rparr>)\<rparr>)
      | CLOSING \<Rightarrow> Some w
      | CLOSED \<Rightarrow> Some w)"

definition ws_close :: "nat \<Rightarrow> nat \<Rightarrow> string \<Rightarrow> world \<Rightarrow> world" where
  "ws_close c code reason w =
     (case readyState (sockets w c) of
        CLOSED \<Rightarrow> w
      | _ \<Rightarrow> w\<lparr>sockets := (sockets w)(c := (sockets w c)\<lparr>readyState := CLOSING, close_call := Some (code, reason)\<rparr>)\<rparr>)"

text \<open>
  \<^verbatim>\<open>serverInfo.ws.readyState === WebSocket.OPEN\<close> and \<^verbatim>\<open>serverInfo.ws.send(data)\<close> on
  the \<open>ws\<close> property of an entry. On an overwritten property the read throws for
  \<^verbatim>\<open>null\<close> and otherwise compares the JSON property \<open>readyState\<close> with 1; the call always
  throws, since no JSON value has a callable \<open>send\<close>.
\<close>

definition ws_is_open :: "world \<Rightarrow> nat field \<Rightarrow> bool option" where
  "ws_is_open w f =
     (case f of
        Native c \<Rightarrow> Some (readyState (sockets w c) = OPEN)
      | Overwritten JNull \<Rightarrow> None
      | Overwritten v \<Rightarrow> Some (getprop v ''readyState'' = Some (JNum (Finite 1))))"

definition ws_field_send :: "nat field \<Rightarrow> string \<Rightarrow> world \<Rightarrow> world option" where
  "ws_field_send f data w = (case f of Native c \<Rightarrow> ws_send c data w | Overwritten v \<Rightarrow> None)"

section \<open>Routing helpers\<close>

text \<open>The loop of \<^verbatim>\<open>broadcastToAll\<close> over the entries, in the map's order.\<close>

fun forEach_send :: "string \<Rightarrow> string option \<Rightarrow> registry \<Rightarrow> world \<Rightarrow> world option" where
  "forEach_send messageStr excludeServerId [] w = Some w"
| "forEach_send messageStr excludeServerId ((sid, serverInfo) # rest) w =
     (if Some sid \<noteq> excludeServerId
      then (case ws_is_open w (ws serverInfo) of
              None \<Rightarrow> None
            | Some True \<Rightarrow>
                (case ws_field_send (ws serverInfo) messageStr w of
                   None \<Rightarrow> None
                 | Some w' \<Rightarrow> forEach_send messageStr excludeServerId rest w')
            | Some False \<Rightarrow> forEach_send messageStr excludeServerId rest w)
      else forEach_send messageStr excludeServerId rest w)"

definition broadcastToAll :: "runtime \<Rightarrow> json \<Rightarrow> string option \<Rightarrow> world \<Rightarrow> world option" where
  "broadcastToAll rt message excludeServerId w =
     forEach_send (JSON_stringify rt message) excludeServerId (connectedServers w) w"

definition sendToServer :: "runtime \<Rightarrow> json option \<Rightarrow> json \<Rightarrow> world \<Rightarrow> (bool \<times> world) option" where
  "sendToServer rt targetServerId message w =
     (case Map_get_value (connectedServers w) targetServerId of
        None \<Rightarrow> Some (False, w)
      | Some serverInfo \<Rightarrow>
          (case ws_is_open w (ws serverInfo) of
             None \<Rightarrow> None
           | Some False \<Rightarrow> Some (False, w)
           | Some True \<Rightarrow>
               map_option (Pair True) (ws_field_send (ws serverInfo) (JSON_stringify rt message) w)))"

section \<open>Message handlers\<close>

definition handleHeartbeat :: "runtime \<Rightarrow> fresh \<Rightarrow> int \<Rightarrow> string \<Rightarrow> json \<Rightarrow> world \<Rightarrow> world option" where
  "handleHeartbeat rt fr server_time sid message w =
     (case createMessage rt fr ''heartbeat_ack'' ''relay'' sid
             (JObj [(''server_time'', JStr (toISOString rt server_time)),
                    (''connected_servers'', JNum (Finite (of_nat (Map_size (connectedServers w)))))]) of
        None \<Rightarrow> None
      | Some response \<Rightarrow>
          (case Map_get (connectedServers w) sid of
             None \<Rightarrow> Some w
           | Some serverInfo \<Rightarrow> ws_field_send (ws serverInfo) (JSON_stringify rt response) w))"

text \<open>
  \<^verbatim>\<open>Object.assign(serverInfo, payload)\<close>. The own enumerable properties of a truthy JSON
  value: an object's properties (each key once), the elements of an array and the
  characters of a string under their decimal indices, none for a number or a boolean.
  Assignments to different properties commute, so the enumeration order is not modelled.
\<close>

fun digits :: "nat \<Rightarrow> string" where
  "digits n =
     (if n < 10 then [''0123456789'' ! n]
      else digits (n div 10) @ [''0123456789'' ! (n mod 10)])"

declare digits.simps [simp del]

definition indexed :: "json list \<Rightarrow> (string \<times> json) list" where
  "indexed xs = map (\<lambda>i. (digits i, xs ! i)) [0..<length xs]"

fun own_props :: "json \<Rightarrow> (string \<times> json) list" where
  "own_props (JObj kvs) = AList.clearjunk kvs"
| "own_props (JArr xs) = indexed xs"
| "own_props (JStr s) = indexed (map (\<lambda>c. JStr [c]) s)"
| "own_props _ = []"

text \<open>
  An assignment \<^verbatim>\<open>serverInfo[k] = v\<close> with \<open>k\<close> the name \<open>__proto__\<close>. Unless the
  entry has an own property of that name, the name is looked up along the prototype
  chain: \<^verbatim>\<open>Object.prototype\<close> answers with its accessor, whose setter replaces the entry's
  prototype when \<open>v\<close> is an object, an array or \<^verbatim>\<open>null\<close> and does nothing otherwise; a
  \<^verbatim>\<open>null\<close> prototype, or a prototype that is a decoded object with an own property
  \<open>__proto__\<close>, makes the assignment create an own property.
\<close>

definition proto_setter :: "json \<Rightarrow> serverInfo \<Rightarrow> serverInfo" where
  "proto_setter v serverInfo =
     (case v of
        JObj kvs \<Rightarrow> serverInfo\<lparr>prototype := Some v\<rparr>
      | JArr xs \<Rightarrow> serverInfo\<lparr>prototype := Some v\<rparr>
      | JNull \<Rightarrow> serverInfo\<lparr>prototype := Some v\<rparr>
      | _ \<Rightarrow> serverInfo)"

definition set_proto :: "json \<Rightarrow> serverInfo \<Rightarrow> serverInfo" where
  "set_proto v serverInfo =
     (if ''__proto__'' \<in> set (map fst (others serverInfo))
      then serverInfo\<lparr>others := AList.update ''__proto__'' v (others serverInfo)\<rparr>
      else (case prototype serverInfo of
              None \<Rightarrow> proto_setter v serverInfo
            | Some JNull \<Rightarrow> serverInfo\<lparr>others := AList.update ''__proto__'' v (others serverInfo)\<rparr>
            | Some (JObj kvs) \<Rightarrow>
                if map_of kvs ''__proto__'' = None then proto_setter v serverInfo
                else serverInfo\<lparr>others := AList.update ''__proto__'' v (others serverInfo)\<rparr>
            | Some p \<Rightarrow> proto_setter v serverInfo))"

definition set_prop :: "string \<times> json \<Rightarrow> serverInfo \<Rightarrow> serverInfo" where
  "set_prop kv serverInfo =
     (if fst kv = ''serverId'' then serverInfo\<lparr>serverId := snd kv\<rparr>
      else if fst kv = ''version'' then serverInfo\<lparr>version := Some (snd kv)\<rparr>
      else if fst kv = ''capabilities'' then serverInfo\<lparr>capabilities := snd kv\<rparr>
      else if fst kv = ''connected'' then serverInfo\<lparr>connected := Overwritten (snd kv)\<rparr>
      else if fst kv = ''lastSeen'' then serverInfo\<lparr>lastSeen := Overwritten (snd kv)\<rparr>
      else if fst kv = ''ws'' then serverInfo\<lparr>ws := Overwritten (snd kv)\<rparr>
      else if fst kv = ''__proto__'' then set_proto (snd kv) serverInfo
      else serverInfo\<lparr>others := AList.update (fst kv) (snd kv) (others serverInfo)\<rparr>)"

definition Object_assign :: "serverInfo \<Rightarrow> json \<Rightarrow> serverInfo" where
  "Object_assign serverInfo payload = fold set_prop (own_props payload) serverInfo"

definition handleServerRegister :: "string \<Rightarrow> json \<Rightarrow> world \<Rightarrow> world option" where
  "handleServerRegister sid message w =
     (case Map_get (connectedServers w) sid of
        None \<Rightarrow> Some w
      | Some serverInfo \<Rightarrow>
          (case getprop message ''payload'' of
             None \<Rightarrow> Some w
           | Some payload \<Rightarrow>
               if truthy (Some payload)
               then Some (w\<lparr>connectedServers :=
                            Map_set sid (Object_assign serverInfo payload) (connectedServers w)\<rparr>)
               else Some w))"

text \<open>
  The payload of the failure response of \<^verbatim>\<open>handleTeleportRequest\<close>. A property whose
  value is \<^verbatim>\<open>undefined\<close> is left out, as \<^verbatim>\<open>JSON.stringify\<close> leaves it out.
\<close>

definition failure_payload :: "json option \<Rightarrow> string \<Rightarrow> string \<Rightarrow> json" where
  "failure_payload request_id error_code msg =
     JObj ((case request_id of None \<Rightarrow> [] | Some i \<Rightarrow> [(''request_id'', i)]) @
           [(''status'', JStr ''failed''),
            (''error_code'', JStr error_code),
            (''message'', JStr msg)])"

definition handleTeleportRequest :: "runtime \<Rightarrow> fresh \<Rightarrow> string \<Rightarrow> json \<Rightarrow> world \<Rightarrow> world option" where
  "handleTeleportRequest rt fr sid message w =
     (let targetServerId = getprop message ''to'' in
      if Map_has_value (connectedServers w) targetServerId
      then
        (case sendToServer rt targetServerId message w of
           None \<Rightarrow> None
         | Some (True, w') \<Rightarrow> Some w'
         | Some (False, w') \<Rightarrow>
             (case template rt targetServerId of
                None \<Rightarrow> None
              | Some target \<Rightarrow>
                  (case createMessage rt fr ''teleport_response'' ''relay'' sid
                          (failure_payload (getprop message ''id'') ''TARGET_UNAVAILABLE''
                             (''Target server '' @ target @ '' is not available'')) of
                     None \<Rightarrow> None
                   | Some errorMessage \<Rightarrow>
                       map_option snd (sendToServer rt (Some (JStr sid)) errorMessage w'))))
      else
        (case template rt targetServerId of
           None \<Rightarrow> None
         | Some target \<Rightarrow>
             (case createMessage rt fr ''teleport_response'' ''relay'' sid
                     (failure_payload (getprop message ''id'') ''SERVER_NOT_FOUND''
                        (''Target server '' @ target @ '' not found'')) of
                None \<Rightarrow> None
              | Some errorMessage \<Rightarrow>
                  map_option snd (sendToServer rt (Some (JStr sid)) errorMessage w))))"

text \<open>
  \<^verbatim>\<open>handleTeleportResponse\<close> reads \<^verbatim>\<open>message.payload.request_id\<close> first, which throws when
  the payload is \<^verbatim>\<open>undefined\<close> or \<^verbatim>\<open>null\<close>.
\<close>

definition handleTeleportResponse :: "runtime \<Rightarrow> string \<Rightarrow> json \<Rightarrow> world \<Rightarrow> world option" where
  "handleTeleportResponse rt sid message w =
     (case getprop message ''payload'' of
        None \<Rightarrow> None
      | Some JNull \<Rightarrow> None
      | Some payload \<Rightarrow> broadcastToAll rt message (Some sid) w)"

definition handleStatusUpdate :: "runtime \<Rightarrow> string \<Rightarrow> json \<Rightarrow> world \<Rightarrow> world option" where
  "handleStatusUpdate rt sid message w =
     (if getprop message ''to'' = Some (JStr ''broadcast'')
      then broadcastToAll rt message (Some sid) w
      else Some w)"

section \<open>Connection listeners\<close>

text \<open>The update of \<open>lastSeen\<close> in the \<^verbatim>\<open>message\<close> listener.\<close>

definition touchLastSeen :: "string \<Rightarrow> int \<Rightarrow> world \<Rightarrow> world" where
  "touchLastSeen sid now w =
     (if Map_has (connectedServers w) sid
      then w\<lparr>connectedServers :=
               AList.map_entry sid (\<lambda>serverInfo. serverInfo\<lparr>lastSeen := Native now\<rparr>)
                 (connectedServers w)\<rparr>
      else w)"

text \<open>
  The \<^verbatim>\<open>message\<close> listener of connection \<open>c\<close>, which closes over \<open>ws\<close> (socket \<open>c\<close>) and
  \<open>serverId\<close>. The clock is read for the validation (\<open>t_validate\<close>), for \<open>lastSeen\<close>
  (\<open>t_seen\<close>) and for the heartbeat's \<open>server_time\<close> (\<open>t_server\<close>); \<open>fr\<close> feeds the one
  \<^verbatim>\<open>createMessage\<close> call a frame can lead to. Before anything else the listener logs
  \<^verbatim>\<open>`${message.type} -> ${message.to}`\<close> of a valid message, and a conversion that throws
  there ends the handler. \<open>dispatch\<close> is the \<^verbatim>\<open>switch\<close> on the message type.
\<close>

definition dispatch :: "runtime \<Rightarrow> fresh \<Rightarrow> int \<Rightarrow> string \<Rightarrow> json \<Rightarrow> world \<Rightarrow> world option" where
  "dispatch rt fr t_server sid message w =
     (let type = getprop message ''type'' in
      if type = Some (JStr ''heartbeat'') then handleHeartbeat rt fr t_server sid message w
      else if type = Some (JStr ''server_register'') then handleServerRegister sid message w
      else if type = Some (JStr ''teleport_request'') then handleTeleportRequest rt fr sid message w
      else if type = Some (JStr ''teleport_response'') then handleTeleportResponse rt sid message w
      else if type = Some (JStr ''status_update'') then handleStatusUpdate rt sid message w
      else Some w)"

definition on_message ::
  "runtime \<Rightarrow> nat \<Rightarrow> string \<Rightarrow> string \<Rightarrow> int \<Rightarrow> fresh \<Rightarrow> int \<Rightarrow> int \<Rightarrow> world \<Rightarrow> world option" where
  "on_message rt c sid data t_validate fr t_seen t_server w =
     (case validateMessage rt t_validate data of
        Invalid err \<Rightarrow>
          (case createMessage rt fr ''error'' ''relay'' sid
                  (JObj [(''error_code'', JStr ''INVALID_MESSAGE''), (''error_message'', JStr err)]) of
             None \<Rightarrow> None
           | Some errorMessage \<Rightarrow> ws_send c (JSON_stringify rt errorMessage) w)
      | Valid message \<Rightarrow>
          (case template rt (getprop message ''type'') of
             None \<Rightarrow> None
           | Some logged_type \<Rightarrow>
               (case template rt (getprop message ''to'') of
                  None \<Rightarrow> None
                | Some logged_to \<Rightarrow>
                    dispatch rt fr t_server sid message (touchLastSeen sid t_seen w))))"

text \<open>The request headers the \<^verbatim>\<open>connection\<close> handler reads; \<open>None\<close> is an absent header.\<close>

record headers =
  authorization :: "string option"
  x_minegate_server_id :: "string option"
  x_minegate_version :: "string option"
  x_minegate_capabilities :: "string option"

text \<open>\<^verbatim>\<open>s.replace(pat, '')\<close> with a string pattern: the first occurrence is removed.\<close>

fun remove_first :: "string \<Rightarrow> string \<Rightarrow> string" where
  "remove_first pat [] = []"
| "remove_first pat (c # cs) =
     (if take (length pat) (c # cs) = pat then drop (length pat) (c # cs)
      else c # remove_first pat cs)"

text \<open>\<^verbatim>\<open>s.split(d)\<close> with a one-character separator.\<close>

fun split :: "char \<Rightarrow> string \<Rightarrow> string list" where
  "split d [] = [[]]"
| "split d (c # cs) =
     (if c = d then [] # split d cs
      else (case split d cs of [] \<Rightarrow> [[c]] | p # ps \<Rightarrow> (c # p) # ps))"

text \<open>The public view of an entry in the welcome list; \<^verbatim>\<open>lastSeen.toISOString()\<close> throws
  unless \<open>lastSeen\<close> is still a Date.\<close>

definition public_view :: "runtime \<Rightarrow> serverInfo \<Rightarrow> json option" where
  "public_view rt server =
     (case lastSeen server of
        Native t \<Rightarrow>
          Some (JObj [(''serverId'', serverId server),
                      (''capabilities'', capabilities server),
                      (''lastSeen'', JStr (toISOString rt t)),
                      (''status'', JStr ''online'')])
      | Overwritten v \<Rightarrow> None)"

definition on_connection ::
  "runtime \<Rightarrow> nat \<Rightarrow> headers \<Rightarrow> int \<Rightarrow> int \<Rightarrow> fresh \<Rightarrow> fresh \<Rightarrow> world \<Rightarrow> world option" where
  "on_connection rt c req t_connected t_seen fr_welcome fr_join w =
     (case (authorization req, x_minegate_server_id req) of
        (Some auth, Some sid) \<Rightarrow>
          if auth = [] \<or> sid = []
          then Some ((ws_close c 1008 ''Missing authentication or server ID'' w)\<lparr>conns := (conns w)(c := Closed)\<rparr>)
          else if length (remove_first ''Bearer '' auth) < 10
          then Some ((ws_close c 1008 ''Invalid token'' w)\<lparr>conns := (conns w)(c := Closed)\<rparr>)
          else
            (let serverInfo =
                   \<lparr>serverId = JStr sid,
                    version = map_option JStr (x_minegate_version req),
                    capabilities =
                      JArr (map JStr (case x_minegate_capabilities req of
                                        None \<Rightarrow> []
                                      | Some caps \<Rightarrow> if caps = [] then [] else split CHR '','' caps)),
                    connected = Native t_connected,
                    lastSeen = Native t_seen,
                    ws = Native c,
                    others = [],
                    prototype = None\<rparr>;
                 w1 = w\<lparr>connectedServers := Map_set sid serverInfo (connectedServers w)\<rparr>
             in case those (map (public_view rt)
                              (filter (\<lambda>server. serverId server \<noteq> JStr sid)
                                 (Map_values (connectedServers w1)))) of
                  None \<Rightarrow> None
                | Some serverList \<Rightarrow>
                    (case createMessage rt fr_welcome ''server_list'' ''relay'' sid
                            (JObj [(''servers'', JArr serverList)]) of
                       None \<Rightarrow> None
                     | Some welcomeMessage \<Rightarrow>
                         (case ws_send c (JSON_stringify rt welcomeMessage) w1 of
                            None \<Rightarrow> None
                          | Some w2 \<Rightarrow>
                              (case createMessage rt fr_join ''server_update'' ''relay'' ''broadcast''
                                      (JObj [(''action'', JStr ''join''),
                                             (''server'',
                                              JObj [(''serverId'', JStr sid),
                                                    (''capabilities'', capabilities serverInfo),
                                                    (''lastSeen'', JStr (toISOString rt t_seen)),
                                                    (''status'', JStr ''online'')])]) of
                                 None \<Rightarrow> None
                               | Some newServerMessage \<Rightarrow>
                                   map_option (\<lambda>w3. w3\<lparr>conns := (conns w3)(c := Authenticated sid)\<rparr>)
                                     (broadcastToAll rt newServerMessage (Some sid) w2)))))
      | _ \<Rightarrow> Some ((ws_close c 1008 ''Missing authentication or server ID'' w)\<lparr>conns := (conns w)(c := Closed)\<rparr>))"

text \<open>The \<^verbatim>\<open>close\<close> listener of a connection that closed over \<open>serverId\<close>.\<close>

definition on_close :: "runtime \<Rightarrow> string \<Rightarrow> fresh \<Rightarrow> world \<Rightarrow> world option" where
  "on_close rt sid fr w =
     (let w1 = w\<lparr>connectedServers := Map_delete sid (connectedServers w)\<rparr> in
      case createMessage rt fr ''server_update'' ''relay'' ''broadcast''
             (JObj [(''action'', JStr ''leave''),
                    (''server'', JObj [(''serverId'', JStr sid), (''status'', JStr ''offline'')])]) of
        None \<Rightarrow> None
      | Some departMessage \<Rightarrow> broadcastToAll rt departMessage None w1)"

text \<open>The \<^verbatim>\<open>error\<close> listener only logs.\<close>

definition on_error :: "world \<Rightarrow> world option" where
  "on_error w = Some w"

section \<open>The periodic cleanup\<close>

text \<open>
  \<^verbatim>\<open>now - serverInfo.lastSeen > timeout\<close>. A Date is subtracted as its time value: two
  integers of magnitude at most 8.64e15, whose difference double arithmetic gives exactly
  below 2^53 and rounds, far above the timeout, beyond. An overwritten \<open>lastSeen\<close> is
  converted to a number first (the outer \<open>None\<close> is a thrown TypeError, the inner one NaN,
  and a comparison with NaN is false) and subtracted in double arithmetic.
\<close>

definition timeout :: int where
  "timeout = 5 * 60 * 1000"

fun ToNumber :: "runtime \<Rightarrow> json \<Rightarrow> number option option" where
  "ToNumber rt JNull = Some (Some (Finite 0))"
| "ToNumber rt (JBool b) = Some (Some (Finite (if b then 1 else 0)))"
| "ToNumber rt (JNum n) = Some (Some n)"
| "ToNumber rt (JStr s) = Some (StringToNumber rt s)"
| "ToNumber rt v = map_option (StringToNumber rt) (ToString rt v)"

definition stale :: "runtime \<Rightarrow> int \<Rightarrow> int field \<Rightarrow> bool option" where
  "stale rt now f =
     (case f of
        Native t \<Rightarrow> Some (timeout < now - t)
      | Overwritten v \<Rightarrow>
          (case ToNumber rt v of
             None \<Rightarrow> None
           | Some None \<Rightarrow> Some False
           | Some (Some (Finite r)) \<Rightarrow> Some (of_int timeout < double_minus rt (of_int now) r)
           | Some (Some PosInfinity) \<Rightarrow> Some False
           | Some (Some NegInfinity) \<Rightarrow> Some True))"

text \<open>
  The \<^verbatim>\<open>forEach\<close> of the cleanup: it visits the entries in order and deletes the visited
  entry from the map when it is stale. Deleting the visited entry does not disturb the
  iteration over the others.
\<close>

fun cleanup_loop :: "runtime \<Rightarrow> int \<Rightarrow> registry \<Rightarrow> registry \<Rightarrow> registry option" where
  "cleanup_loop rt now [] m = Some m"
| "cleanup_loop rt now ((sid, serverInfo) # rest) m =
     (case stale rt now (lastSeen serverInfo) of
        None \<Rightarrow> None
      | Some True \<Rightarrow> cleanup_loop rt now rest (Map_delete sid m)
      | Some False \<Rightarrow> cleanup_loop rt now rest m)"

definition cleanup :: "runtime \<Rightarrow> int \<Rightarrow> world \<Rightarrow> world option" where
  "cleanup rt now w =
     map_option (\<lambda>m. w\<lparr>connectedServers := m\<rparr>)
       (cleanup_loop rt now (connectedServers w) (connectedServers w))"

section \<open>Events\<close>

text \<open>
  The relay is single-threaded: the library and the timer call one listener at a time.
  An event names the connection it is for and carries what the listener draws from the
  environment. The library emits \<^verbatim>\<open>connection\<close> once for a socket, frames and \<^verbatim>\<open>error\<close>
  only to installed listeners, and \<^verbatim>\<open>close\<close> once, after setting the socket's
  \<open>readyState\<close> to \<open>CLOSED\<close>.
\<close>

datatype event =
    Connection nat headers int int fresh fresh
  | Frame nat string int fresh int int
  | Close nat fresh
  | Error nat
  | Tick int

definition socket_closed :: "nat \<Rightarrow> world \<Rightarrow> world" where
  "socket_closed c w =
     w\<lparr>sockets := (sockets w)(c := (sockets w c)\<lparr>readyState := CLOSED\<rparr>),
       conns := (conns w)(c := Closed)\<rparr>"

fun step :: "runtime \<Rightarrow> event \<Rightarrow> world \<Rightarrow> world option" where
  "step rt (Connection c req t_connected t_seen fr_welcome fr_join) w =
     (case conns w c of
        Connecting \<Rightarrow> on_connection rt c req t_connected t_seen fr_welcome fr_join w
      | _ \<Rightarrow> Some w)"
| "step rt (Frame c data t_validate fr t_seen t_server) w =
     (case conns w c of
        Authenticated sid \<Rightarrow> on_message rt c sid data t_validate fr t_seen t_server w
      | _ \<Rightarrow> Some w)"
| "step rt (Close c fr) w =
     (case conns w c of
        Authenticated sid \<Rightarrow> on_close rt sid fr (socket_closed c w)
      | Connecting \<Rightarrow> Some (socket_closed c w)
      | Closed \<Rightarrow> Some w)"
| "step rt (Error c) w =
     (case conns w c of
        Authenticated sid \<Rightarrow> on_error w
      | _ \<Rightarrow> Some w)"
| "step rt (Tick now) w = cleanup rt now w"

text \<open>A run of the relay over a list of events; \<open>None\<close> when a handler throws.\<close>

fun run :: "runtime \<Rightarrow> event list \<Rightarrow> world \<Rightarrow> world option" where
  "run rt [] w = Some w"
| "run rt (ev # evs) w = (case step rt ev w of None \<Rightarrow> None | Some w' \<Rightarrow> run rt evs w')"

section \<open>Predicates used in the statements\<close>

text \<open>
  The required-field check of \<^verbatim>\<open>validateMessage\<close> passes: each of the five properties is
  there with a truthy value (not \<^verbatim>\<open>null\<close>, \<^verbatim>\<open>false\<close>, \<open>0\<close> or the empty string).
\<close>

definition required_fields :: "json \<Rightarrow> bool" where
  "required_fields parsed =
     (truthy (getprop parsed ''type'') \<and> truthy (getprop parsed ''id'') \<and>
      truthy (getprop parsed ''from'') \<and> truthy (getprop parsed ''to'') \<and>
      truthy (getprop parsed ''timestamp''))"

text \<open>The message's \<open>signature\<close> is the string \<^verbatim>\<open>signMessage\<close> computes for the message.\<close>

definition signature_ok :: "runtime \<Rightarrow> json \<Rightarrow> bool" where
  "signature_ok rt parsed =
     (case signMessage rt parsed of
        None \<Rightarrow> False
      | Some expected \<Rightarrow> getprop parsed ''signature'' = Some (JStr expected))"

text \<open>The message \<^verbatim>\<open>createMessage\<close> returns, written out (lemma \<open>createMessage_signed\<close>).\<close>

definition signed_message :: "runtime \<Rightarrow> fresh \<Rightarrow> string \<Rightarrow> string \<Rightarrow> string \<Rightarrow> json \<Rightarrow> json" where
  "signed_message rt fr type from to payload =
     JObj (unsigned_message rt fr type from to payload @
           [(''signature'',
             JStr (hmac rt (type @ ''|'' @ toISOString rt (snd fr) @ ''|'' @ from @ ''|'' @ to @ ''|'' @
                            JSON_stringify rt (payload_or_empty (Some payload)))))])"

text \<open>
  The frame of a message the relay originates, as the wire format states it: the
  properties \<open>type\<close>, \<open>id\<close>, \<open>timestamp\<close>, \<open>from\<close> (the relay), \<open>to\<close> and
  \<open>payload\<close>, and as \<open>signature\<close> the HMAC of
  \<^verbatim>\<open>type|timestamp|relay|to|\<close> followed by the serialised payload. It is written out
  here without reference to \<^verbatim>\<open>createMessage\<close> or \<^verbatim>\<open>signMessage\<close>; lemma
  \<open>createMessage_relay\<close> shows that \<^verbatim>\<open>createMessage\<close> returns it.
\<close>

definition relay_frame :: "runtime \<Rightarrow> fresh \<Rightarrow> string \<Rightarrow> string \<Rightarrow> json \<Rightarrow> json" where
  "relay_frame rt fr type to payload =
     JObj [(''type'', JStr type),
           (''id'', JStr (fst fr)),
           (''timestamp'', JStr (toISOString rt (snd fr))),
           (''from'', JStr ''relay''),
           (''to'', JStr to),
           (''payload'', payload),
           (''signature'',
            JStr (hmac rt (type @ ''|'' @ toISOString rt (snd fr) @ ''|relay|'' @ to @ ''|'' @
                           JSON_stringify rt payload)))]"

text \<open>
  Statements about sends: \<open>deliver c data\<close> appends one frame to what socket \<open>c\<close> has
  sent and changes nothing else; \<open>deliver_to\<close> does so for an optional socket;
  \<open>deliver_each data n\<close> appends \<open>n c\<close> copies to every socket \<open>c\<close>.
\<close>

definition deliver :: "nat \<Rightarrow> string \<Rightarrow> world \<Rightarrow> world" where
  "deliver c data w = w\<lparr>sockets := (sockets w)(c := (sockets w c)\<lparr>sent := sent (sockets w c) @ [data]\<rparr>)\<rparr>"

definition deliver_to :: "nat option \<Rightarrow> string \<Rightarrow> world \<Rightarrow> world" where
  "deliver_to t data w = (case t of None \<Rightarrow> w | Some c \<Rightarrow> deliver c data w)"

definition deliver_each :: "string \<Rightarrow> (nat \<Rightarrow> nat) \<Rightarrow> world \<Rightarrow> world" where
  "deliver_each data n w =
     w\<lparr>sockets := (\<lambda>c. (sockets w c)\<lparr>sent := sent (sockets w c) @ replicate (n c) data\<rparr>)\<rparr>"

text \<open>
  How many entries of \<open>m\<close>, other than the excluded key, hold socket \<open>c\<close> while it
  is open: the number of copies of a broadcast that socket \<open>c\<close> gets.
\<close>

definition receives :: "string option \<Rightarrow> registry \<Rightarrow> world \<Rightarrow> nat \<Rightarrow> nat" where
  "receives excludeServerId m w c =
     length (filter (\<lambda>e. Some (fst e) \<noteq> excludeServerId \<and> ws (snd e) = Native c \<and>
                          readyState (sockets w c) = OPEN) m)"

text \<open>The socket registered under key \<open>k\<close>, if there is one and it is open.\<close>

definition open_transport :: "world \<Rightarrow> string \<Rightarrow> nat option" where
  "open_transport w k =
     (case Map_get (connectedServers w) k of
        None \<Rightarrow> None
      | Some info \<Rightarrow>
          (case ws info of
             Native c \<Rightarrow> if readyState (sockets w c) = OPEN then Some c else None
           | Overwritten v \<Rightarrow> None))"


text \<open>
  \<open>converts\<close>: the conversion of a \<open>lastSeen\<close> property to a number does not throw; it
  never throws for a Date. \<open>expired\<close>: \<^verbatim>\<open>now - lastSeen > 300000\<close> holds, which for a
  Date last seen at \<open>t\<close> is \<open>300000 < now - t\<close>, and for an overwritten property is
  decided on the number it converts to (never for NaN).
\<close>

definition converts :: "runtime \<Rightarrow> int field \<Rightarrow> bool" where
  "converts rt f = (case f of Native t \<Rightarrow> True | Overwritten v \<Rightarrow> ToNumber rt v \<noteq> None)"


text \<open>
  The \<^verbatim>\<open>connection\<close> handler admits the request under the identifier \<open>sid\<close>: both
  headers are there and non-empty, and the token has at least 10 characters.
  \<open>admission_info\<close> is the \<^verbatim>\<open>serverInfo\<close> object it then builds. \<open>entry_view\<close> is the
  public view of the entry stored under a key, for an entry whose \<open>lastSeen\<close> is a Date:
  the key as \<open>serverId\<close>, the capabilities, the time last seen and the status, and no
  transport handle.
\<close>

definition admitted :: "headers \<Rightarrow> string \<Rightarrow> bool" where
  "admitted req sid =
     (case authorization req of
        None \<Rightarrow> False
      | Some auth \<Rightarrow> auth \<noteq> [] \<and> 10 \<le> length (remove_first ''Bearer '' auth) \<and>
                      sid \<noteq> [] \<and> x_minegate_server_id req = Some sid)"

definition admission_info :: "headers \<Rightarrow> string \<Rightarrow> nat \<Rightarrow> int \<Rightarrow> int \<Rightarrow> serverInfo" where
  "admission_info req sid c t_connected t_seen =
     \<lparr>serverId = JStr sid,
      version = map_option JStr (x_minegate_version req),
      capabilities =
        JArr (map JStr (case x_minegate_capabilities req of
                          None \<Rightarrow> []
                        | Some caps \<Rightarrow> if caps = [] then [] else split CHR '','' caps)),
      connected = Native t_connected,
      lastSeen = Native t_seen,
      ws = Native c,
      others = [],
      prototype = None\<rparr>"


text \<open>
  The \<open>serverId\<close> property of every entry is the key the entry is stored under.
  \<open>renames\<close>: the event is a valid \<open>server_register\<close> frame on an authenticated
  connection whose identifier has an entry, and its payload has a \<open>serverId\<close> property
  that is not that identifier.
\<close>

definition key_inv :: "registry \<Rightarrow> bool" where
  "key_inv m = list_all (\<lambda>e. serverId (snd e) = JStr (fst e)) m"

definition renames :: "runtime \<Rightarrow> event \<Rightarrow> world \<Rightarrow> bool" where
  "renames rt ev w =
     (case ev of
        Frame c data t_validate fr t_seen t_server \<Rightarrow>
          (case conns w c of
             Authenticated sid \<Rightarrow>
               (case validateMessage rt t_validate data of
                  Valid message \<Rightarrow>
                    Map_has (connectedServers w) sid \<and>
                    getprop message ''type'' = Some (JStr ''server_register'') \<and>
                    (case getprop message ''payload'' of
                       None \<Rightarrow> False
                     | Some payload \<Rightarrow>
                         (case map_of (own_props payload) ''serverId'' of
                            None \<Rightarrow> False
                          | Some v \<Rightarrow> v \<noteq> JStr sid))
                | Invalid err \<Rightarrow> False)
           | _ \<Rightarrow> False)
      | _ \<Rightarrow> False)"

text \<open>
  An entry is intact when it is as admission built it and the \<open>lastSeen\<close> update keeps
  it: its \<open>serverId\<close> is its key, its \<open>lastSeen\<close> is a Date and its \<open>ws\<close> is the
  socket of a connection the \<^verbatim>\<open>connection\<close> handler has seen. A state is intact when its
  registry has one entry per key and every entry is intact. \<open>overwrites\<close>: the event is a
  valid \<open>server_register\<close> frame whose payload has a property \<open>serverId\<close>, \<open>lastSeen\<close>
  or \<open>ws\<close>; a run is \<open>clean\<close> when no event of it does that.
\<close>

definition intact_entry :: "world \<Rightarrow> string \<times> serverInfo \<Rightarrow> bool" where
  "intact_entry w e =
     (serverId (snd e) = JStr (fst e) \<and>
      (case lastSeen (snd e) of Native t \<Rightarrow> True | Overwritten v \<Rightarrow> False) \<and>
      (case ws (snd e) of Native c \<Rightarrow> conns w c \<noteq> Connecting | Overwritten v \<Rightarrow> False))"

definition intact :: "world \<Rightarrow> bool" where
  "intact w =
     (distinct (map fst (connectedServers w)) \<and> list_all (intact_entry w) (connectedServers w))"

definition reserved :: "json \<Rightarrow> bool" where
  "reserved payload =
     (map_of (own_props payload) ''serverId'' \<noteq> None \<or>
      map_of (own_props payload) ''lastSeen'' \<noteq> None \<or>
      map_of (own_props payload) ''ws'' \<noteq> None)"

definition overwrites :: "runtime \<Rightarrow> event \<Rightarrow> world \<Rightarrow> bool" where
  "overwrites rt ev w =
     (case ev of
        Frame c data t_validate fr t_seen t_server \<Rightarrow>
          (case conns w c of
             Authenticated sid \<Rightarrow>
               (case validateMessage rt t_validate data of
                  Valid message \<Rightarrow>
                    getprop message ''type'' = Some (JStr ''server_register'') \<and>
                    (case getprop message ''payload'' of
                       None \<Rightarrow> False
                     | Some payload \<Rightarrow> reserved payload)
                | Invalid err \<Rightarrow> False)
           | _ \<Rightarrow> False)
      | _ \<Rightarrow> False)"

fun clean :: "runtime \<Rightarrow> event list \<Rightarrow> world \<Rightarrow> bool" where
  "clean rt [] w = True"
| "clean rt (ev # evs) w =
     (\<not> overwrites rt ev w \<and> (case step rt ev w of None \<Rightarrow> True | Some w' \<Rightarrow> clean rt evs w'))"

section \<open>A sample runtime and sample frames\<close>

text \<open>
  Concrete stand-ins for the built-ins, for evaluating the model at concrete inputs: a
  small serialiser, a decoder that knows the serialisations of the listed frames, one date
  string, a string conversion that throws on an object with an own \<open>toString\<close> property
  (a decoded value is never callable), and a transparent stand-in for the HMAC.
\<close>

fun show_json :: "json \<Rightarrow> string" where
  "show_json JNull = ''null''"
| "show_json (JBool b) = (if b then ''true'' else ''false'')"
| "show_json (JNum n) =
     (case n of
        Finite r \<Rightarrow> if 0 \<le> r \<and> of_int \<lfloor>r\<rfloor> = r then digits (nat \<lfloor>r\<rfloor>) else ''#''
      | PosInfinity \<Rightarrow> ''null''
      | NegInfinity \<Rightarrow> ''null'')"
| "show_json (JStr s) = ''<'' @ s @ ''>''"
| "show_json (JArr xs) = ''['' @ concat (map (\<lambda>x. show_json x @ '','') xs) @ '']''"
| "show_json (JObj kvs) =
     ''{'' @ concat (map (\<lambda>kv. fst kv @ '':'' @ show_json (snd kv) @ '','') kvs) @ ''}''"

definition sample_runtime :: "json list \<Rightarrow> runtime" where
  "sample_runtime frames =
     \<lparr>JSON_parse = map_of (map (\<lambda>v. (show_json v, v)) frames),
      JSON_stringify = show_json,
      ToString =
        (\<lambda>v. case v of
               JObj kvs \<Rightarrow> if map_of kvs ''toString'' = None then Some ''[object Object]'' else None
             | _ \<Rightarrow> Some (show_json v)),
      StringToNumber = (\<lambda>s. None),
      Date_parse = map_of [(''2024-01-01T00:00:00.000Z'', 1704067200000)],
      toISOString =
        (\<lambda>t. if t = 1704067200000 then ''2024-01-01T00:00:00.000Z'' else ''T'' @ digits (nat t)),
      hmac = (\<lambda>s. ''hmac('' @ s @ '')''),
      double_minus = (\<lambda>a b. a - b)\<rparr>"

text \<open>A frame from peer \<open>alpha\<close> with the given type, id, addressee and timestamp, and
  further properties \<open>rest\<close>.\<close>

definition sample_frame :: "string \<Rightarrow> json \<Rightarrow> string \<Rightarrow> json \<Rightarrow> (string \<times> json) list \<Rightarrow> json" where
  "sample_frame type i to timestamp rest =
     JObj ([(''type'', JStr type), (''id'', i), (''from'', JStr ''alpha''),
            (''to'', JStr to), (''timestamp'', timestamp)] @ rest)"

definition heartbeat_frame :: "json \<Rightarrow> (string \<times> json) list \<Rightarrow> json" where
  "heartbeat_frame timestamp rest = sample_frame ''heartbeat'' (JStr ''m-1'') ''relay'' timestamp rest"

text \<open>A heartbeat with a signature that is not the HMAC, and one whose \<open>id\<close> is empty.\<close>

definition forged_frame :: json where
  "forged_frame = heartbeat_frame (JStr ''2024-01-01T00:00:00.000Z'') [(''signature'', JStr ''forged'')]"

definition empty_id_frame :: json where
  "empty_id_frame = sample_frame ''heartbeat'' (JStr '''') ''relay'' (JStr ''2024-01-01T00:00:00.000Z'') []"

text \<open>
  Sample states. Every socket starts open with nothing sent. \<open>sample_info\<close> is the entry
  admission builds for a peer that sends no version and no capabilities; \<open>initial\<close> is
  the relay at start-up.
\<close>

definition open_socket :: socket where
  "open_socket = \<lparr>readyState = OPEN, sent = [], close_call = None\<rparr>"

definition sample_headers :: "string \<Rightarrow> headers" where
  "sample_headers sid =
     \<lparr>authorization = Some ''Bearer secret-token'',
      x_minegate_server_id = Some sid,
      x_minegate_version = None,
      x_minegate_capabilities = None\<rparr>"

definition sample_info :: "string \<Rightarrow> nat \<Rightarrow> int \<Rightarrow> serverInfo" where
  "sample_info sid c t = admission_info (sample_headers sid) sid c t t"

definition initial :: world where
  "initial = \<lparr>connectedServers = [], sockets = (\<lambda>c. open_socket), conns = (\<lambda>c. Connecting)\<rparr>"

text \<open>Peers \<open>alpha\<close> (socket 0) and \<open>beta\<close> (socket 1), both last seen at \<open>t\<close>.\<close>

definition two_peers :: "int \<Rightarrow> world" where
  "two_peers t =
     \<lparr>connectedServers = [(''alpha'', sample_info ''alpha'' 0 t), (''beta'', sample_info ''beta'' 1 t)],
      sockets = (\<lambda>c. open_socket),
      conns = (\<lambda>c. if c = 0 then Authenticated ''alpha''
                   else if c = 1 then Authenticated ''beta'' else Connecting)\<rparr>"



text \<open>What a socket has sent at the end of a run.\<close>

definition outbox :: "nat \<Rightarrow> world option \<Rightarrow> string list option" where
  "outbox c wo = map_option (\<lambda>w. sent (sockets w c)) wo"

text \<open>A teleport request of \<open>alpha\<close> to \<open>target\<close>, stamped \<open>now\<close>.\<close>

definition teleport_frame :: "string \<Rightarrow> int \<Rightarrow> json" where
  "teleport_frame target now =
     sample_frame ''teleport_request'' (JStr ''m-2'') target (JNum (Finite (of_int now))) []"

text \<open>
  \<open>alpha\<close> connects at 1704067200000 and stays silent; the cleanup of 1704067560000,
  six minutes later, evicts its entry while its socket is still open. Then it sends a
  teleport request.
\<close>

definition evicted_requester :: "event list" where
  "evicted_requester =
     [Connection 0 (sample_headers ''alpha'') 1704067200000 1704067200000
        (''uuid-1'', 1704067200000) (''uuid-2'', 1704067200000),
      Tick 1704067560000]"

definition late_request :: event where
  "late_request =
     Frame 0 (show_json (teleport_frame ''gamma'' 1704067560000)) 1704067560000
       (''uuid-3'', 1704067560000) 1704067560000 1704067560000"

text \<open>A \<open>server_register\<close> frame of \<open>alpha\<close> with the given payload, and a payload
  that names three properties of the entry.\<close>

definition register_frame :: "json \<Rightarrow> int \<Rightarrow> json" where
  "register_frame payload now =
     sample_frame ''server_register'' (JStr ''m-3'') ''relay'' (JNum (Finite (of_int now)))
       [(''payload'', payload)]"

definition hijack :: json where
  "hijack = JObj [(''serverId'', JStr ''beta''), (''ws'', JNull), (''lastSeen'', JStr ''never'')]"







section \<open>Properties of the codec\<close>

lemma js_gt_timeDiff: "js_gt (timeDiff now (Some t)) 5 \<longleftrightarrow> 300000 < \<bar>now - t\<bar>"
proof -
  have "(5 < \<bar>rat_of_int (now - t)\<bar> / 1000 / 60) = (300000 < \<bar>rat_of_int (now - t)\<bar>)"
    by (simp add: field_simps)
  also have "\<dots> = (rat_of_int 300000 < rat_of_int \<bar>now - t\<bar>)" by simp
  also have "\<dots> = (300000 < \<bar>now - t\<bar>)" by (simp only: of_int_less_iff)
  finally show ?thesis by (simp add: js_gt_def timeDiff_def)
qed

lemma js_gt_timeDiff_NaN: "\<not> js_gt (timeDiff now None) 5"
  by (simp add: js_gt_def timeDiff_def)

lemma required_not_null: "required_fields parsed \<Longrightarrow> parsed \<noteq> JNull"
  by (auto simp: required_fields_def)

text \<open>What \<^verbatim>\<open>validateMessage\<close> returns once the frame decodes, the required-field
  check passes and the Date constructor returns.\<close>

lemma validateMessage_checked:
  assumes "JSON_parse rt data = Some parsed" and "required_fields parsed"
    and "newDate rt (getprop parsed ''timestamp'') = Some messageTime"
  shows "validateMessage rt now data =
           (if js_gt (timeDiff now messageTime) 5 then Invalid ''Message timestamp too old''
            else if truthy (getprop parsed ''signature'')
            then (case signMessage rt parsed of
                    None \<Rightarrow> Invalid ''Invalid JSON''
                  | Some expected \<Rightarrow>
                      if getprop parsed ''signature'' \<noteq> Some (JStr expected)
                      then Invalid ''Invalid signature'' else Valid parsed)
            else Valid parsed)"
proof -
  from assms(2) have "parsed \<noteq> JNull" by (rule required_not_null)
  with assms show ?thesis
    unfolding validateMessage_def required_fields_def
    by (cases parsed) (simp_all split: option.splits)
qed

lemma TimeClip_int: "\<bar>i\<bar> \<le> 8640000000000000 \<Longrightarrow> TimeClip (Finite (of_int i)) = Some i"
proof -
  assume a: "\<bar>i\<bar> \<le> 8640000000000000"
  have "\<bar>rat_of_int i\<bar> = rat_of_int \<bar>i\<bar>" by simp
  also have "\<dots> \<le> rat_of_int 8640000000000000" using a by (simp only: of_int_le_iff)
  finally show ?thesis by (simp add: TimeClip_def)
qed

subsection \<open>Evaluating the sample runtime\<close>

lemma sample_parse: "JSON_parse (sample_runtime [v]) (show_json v) = Some v"
  by (simp add: sample_runtime_def)

lemma sample_required:
  "truthy (Some i) \<Longrightarrow> truthy (Some ts) \<Longrightarrow> ty \<noteq> [] \<Longrightarrow> to \<noteq> [] \<Longrightarrow>
   required_fields (sample_frame ty i to ts rest)"
  by (simp add: required_fields_def sample_frame_def)

lemma sample_timestamp: "getprop (sample_frame ty i to ts rest) ''timestamp'' = Some ts"
  by (simp add: sample_frame_def)

lemma sample_signature:
  "getprop (sample_frame ty i to ts rest) ''signature'' = map_of rest ''signature''"
  by (simp add: sample_frame_def)

lemma sample_date: "Date_parse (sample_runtime fs) ''2024-01-01T00:00:00.000Z'' = Some 1704067200000"
  by (simp add: sample_runtime_def)

lemma sample_sign:
  "signMessage (sample_runtime fs) (sample_frame ty i to (JStr ts) rest) =
     Some (''hmac('' @ ty @ ''|'' @ ts @ ''|alpha|'' @ to @ ''|'' @
           show_json (payload_or_empty (map_of rest ''payload'')) @ '')'')"
  by (simp add: signMessage_def sample_frame_def sample_runtime_def)

subsection \<open>Claims about validation\<close>

text \<open>
  Claim C3, as amended. A frame that decodes to a message whose five required properties
  are all truthy, whose timestamp converts to a date at most 5 minutes (300000 ms) before
  or after the clock reading, and which carries no truthy \<open>signature\<close> or carries the very
  string \<^verbatim>\<open>signMessage\<close> computes for it, is valid. The two extra conditions cannot be
  dropped, see the counterexample below.
\<close>

theorem validate_fresh_signed_or_unsigned:
  assumes "JSON_parse rt data = Some parsed" and "required_fields parsed"
    and "newDate rt (getprop parsed ''timestamp'') = Some (Some t)"
    and "\<bar>now - t\<bar> \<le> 300000"
    and "truthy (getprop parsed ''signature'') \<longrightarrow> signature_ok rt parsed"
  shows "validateMessage rt now data = Valid parsed"
  using assms(4,5)
  by (auto simp: validateMessage_checked[OF assms(1-3)] js_gt_timeDiff signature_ok_def
      split: option.splits)

text \<open>A signed heartbeat, one minute old.\<close>

theorem validate_fresh_signed_or_unsigned_witness:
  "validateMessage
     (sample_runtime [heartbeat_frame (JStr ''2024-01-01T00:00:00.000Z'')
        [(''signature'', JStr ''hmac(heartbeat|2024-01-01T00:00:00.000Z|alpha|relay|{})'')]])
     1704067260000
     (show_json (heartbeat_frame (JStr ''2024-01-01T00:00:00.000Z'')
        [(''signature'', JStr ''hmac(heartbeat|2024-01-01T00:00:00.000Z|alpha|relay|{})'')]))
   = Valid (heartbeat_frame (JStr ''2024-01-01T00:00:00.000Z'')
        [(''signature'', JStr ''hmac(heartbeat|2024-01-01T00:00:00.000Z|alpha|relay|{})'')])"
proof -
  let ?v = "heartbeat_frame (JStr ''2024-01-01T00:00:00.000Z'')
        [(''signature'', JStr ''hmac(heartbeat|2024-01-01T00:00:00.000Z|alpha|relay|{})'')]"
  let ?rt = "sample_runtime [?v]"
  have p: "JSON_parse ?rt (show_json ?v) = Some ?v" by (rule sample_parse)
  have r: "required_fields ?v" unfolding heartbeat_frame_def by (rule sample_required) simp_all
  have d: "newDate ?rt (getprop ?v ''timestamp'') = Some (Some 1704067200000)"
    by (simp add: heartbeat_frame_def sample_timestamp sample_date)
  have n: "\<bar>1704067260000 - 1704067200000\<bar> \<le> (300000::int)" by simp
  have s: "truthy (getprop ?v ''signature'') \<longrightarrow> signature_ok ?rt ?v"
    by (simp add: heartbeat_frame_def signature_ok_def sample_sign sample_signature payload_or_empty_def)
  show ?thesis by (rule validate_fresh_signed_or_unsigned [OF p r d n s])
qed

text \<open>
  Claim C3 as stated fails. Both frames have all five properties and a timestamp one
  minute before the clock reading. The first carries a signature that is not the HMAC and
  is rejected with \<open>Invalid signature\<close>; the second has the empty string as its \<open>id\<close> and
  is rejected with \<open>Missing required fields\<close>.
\<close>

theorem validate_five_fields_counterexample:
  "getprop forged_frame ''type'' \<noteq> None \<and> getprop forged_frame ''id'' \<noteq> None \<and>
   getprop forged_frame ''from'' \<noteq> None \<and> getprop forged_frame ''to'' \<noteq> None \<and>
   getprop forged_frame ''timestamp'' = Some (JStr ''2024-01-01T00:00:00.000Z'') \<and>
   Date_parse (sample_runtime [forged_frame]) ''2024-01-01T00:00:00.000Z'' = Some 1704067200000 \<and>
   \<bar>1704067260000 - 1704067200000\<bar> \<le> (300000::int) \<and>
   validateMessage (sample_runtime [forged_frame]) 1704067260000 (show_json forged_frame)
     = Invalid ''Invalid signature'' \<and>
   getprop empty_id_frame ''type'' \<noteq> None \<and> getprop empty_id_frame ''id'' = Some (JStr '''') \<and>
   getprop empty_id_frame ''from'' \<noteq> None \<and> getprop empty_id_frame ''to'' \<noteq> None \<and>
   getprop empty_id_frame ''timestamp'' = Some (JStr ''2024-01-01T00:00:00.000Z'') \<and>
   validateMessage (sample_runtime [empty_id_frame]) 1704067260000 (show_json empty_id_frame)
     = Invalid ''Missing required fields''"
proof -
  have r: "required_fields forged_frame"
    unfolding forged_frame_def heartbeat_frame_def by (rule sample_required) simp_all
  have d: "newDate (sample_runtime [forged_frame]) (getprop forged_frame ''timestamp'') = Some (Some 1704067200000)"
    by (simp add: forged_frame_def heartbeat_frame_def sample_timestamp sample_date)
  have 1: "validateMessage (sample_runtime [forged_frame]) 1704067260000 (show_json forged_frame)
     = Invalid ''Invalid signature''"
    by (simp add: validateMessage_checked [OF sample_parse r d] js_gt_timeDiff)
       (simp add: forged_frame_def heartbeat_frame_def sample_sign sample_signature)
  have 2: "validateMessage (sample_runtime [empty_id_frame]) 1704067260000 (show_json empty_id_frame)
     = Invalid ''Missing required fields''"
    by (simp add: validateMessage_def sample_parse) (simp add: empty_id_frame_def sample_frame_def)
  show ?thesis
    using 1 2 by (simp add: sample_date) (simp add: forged_frame_def empty_id_frame_def heartbeat_frame_def sample_frame_def)
qed

text \<open>
  Claim C5. For a message that passes the required-field check and the freshness check:
  without a \<open>signature\<close> property, and more generally with a falsy one (the test is
  \<^verbatim>\<open>if (parsed.signature)\<close>), the message is valid, whatever the HMAC would be; with a
  truthy \<open>signature\<close> the message is rejected if and only if the signature is not the
  string \<^verbatim>\<open>signMessage\<close> computes for the message.
\<close>

theorem signature_checked_only_if_present:
  assumes "JSON_parse rt data = Some parsed" and "required_fields parsed"
    and "newDate rt (getprop parsed ''timestamp'') = Some messageTime"
    and "\<not> js_gt (timeDiff now messageTime) 5"
  shows "(getprop parsed ''signature'' = None \<longrightarrow> validateMessage rt now data = Valid parsed) \<and>
         (\<not> truthy (getprop parsed ''signature'') \<longrightarrow> validateMessage rt now data = Valid parsed) \<and>
         (truthy (getprop parsed ''signature'') \<longrightarrow>
            ((\<exists>e. validateMessage rt now data = Invalid e) \<longleftrightarrow> \<not> signature_ok rt parsed) \<and>
            (validateMessage rt now data = Valid parsed \<longleftrightarrow> signature_ok rt parsed))"
  using assms(4)
  by (auto simp: validateMessage_checked[OF assms(1-3)] signature_ok_def split: option.splits)

text \<open>An unsigned heartbeat is valid; the heartbeat with a forged signature is rejected.\<close>

theorem signature_checked_only_if_present_witness:
  "validateMessage (sample_runtime [heartbeat_frame (JStr ''2024-01-01T00:00:00.000Z'') []])
     1704067260000 (show_json (heartbeat_frame (JStr ''2024-01-01T00:00:00.000Z'') []))
   = Valid (heartbeat_frame (JStr ''2024-01-01T00:00:00.000Z'') []) \<and>
   (\<exists>e. validateMessage (sample_runtime [forged_frame]) 1704067260000 (show_json forged_frame)
      = Invalid e)"
proof -
  let ?u = "heartbeat_frame (JStr ''2024-01-01T00:00:00.000Z'') []"
  have ru: "required_fields ?u" unfolding heartbeat_frame_def by (rule sample_required) simp_all
  have du: "newDate (sample_runtime [?u]) (getprop ?u ''timestamp'') = Some (Some 1704067200000)"
    by (simp add: heartbeat_frame_def sample_timestamp sample_date)
  have f: "\<not> js_gt (timeDiff 1704067260000 (Some 1704067200000)) 5"
    by (simp add: js_gt_timeDiff)
  have su: "getprop ?u ''signature'' = None"
    by (simp add: heartbeat_frame_def sample_signature)
  have rf: "required_fields forged_frame"
    unfolding forged_frame_def heartbeat_frame_def by (rule sample_required) simp_all
  have df: "newDate (sample_runtime [forged_frame]) (getprop forged_frame ''timestamp'') = Some (Some 1704067200000)"
    by (simp add: forged_frame_def heartbeat_frame_def sample_timestamp sample_date)
  have sf: "truthy (getprop forged_frame ''signature'')"
    by (simp add: forged_frame_def heartbeat_frame_def sample_signature)
  have nf: "\<not> signature_ok (sample_runtime [forged_frame]) forged_frame"
    by (simp add: forged_frame_def heartbeat_frame_def signature_ok_def sample_sign sample_signature)
  show ?thesis
    using signature_checked_only_if_present [OF sample_parse ru du f]
      signature_checked_only_if_present [OF sample_parse rf df f] su sf nf
    by simp
qed

text \<open>
  Claim C7. For a message that is valid apart from its age, with a timestamp that converts
  to the date \<open>t\<close>: it is rejected with \<open>Message timestamp too old\<close> exactly when
  \<open>now\<close> and \<open>t\<close> are more than 300000 ms apart, in either direction. So 5 minutes
  1 second fails and 4 minutes 59 seconds passes, in the past and in the future, and
  exactly 5 minutes passes.
\<close>

theorem freshness_boundary:
  assumes "JSON_parse rt data = Some parsed" and "required_fields parsed"
    and "newDate rt (getprop parsed ''timestamp'') = Some (Some t)"
    and "truthy (getprop parsed ''signature'') \<longrightarrow> signature_ok rt parsed"
  shows "validateMessage rt now data =
           (if 300000 < \<bar>now - t\<bar> then Invalid ''Message timestamp too old'' else Valid parsed)"
  using assms(4)
  by (auto simp: validateMessage_checked[OF assms(1-3)] js_gt_timeDiff signature_ok_def
      split: option.splits)

text \<open>
  A heartbeat stamped 1704067200000, received 301 s later (rejected), 299 s later (valid),
  301 s earlier (rejected), 299 s earlier (valid) and exactly 300 s later (valid).
\<close>

theorem freshness_boundary_witness:
  "validateMessage (sample_runtime [heartbeat_frame (JNum (Finite 1704067200000)) []]) 1704067501000
     (show_json (heartbeat_frame (JNum (Finite 1704067200000)) [])) = Invalid ''Message timestamp too old'' \<and>
   validateMessage (sample_runtime [heartbeat_frame (JNum (Finite 1704067200000)) []]) 1704067499000
     (show_json (heartbeat_frame (JNum (Finite 1704067200000)) [])) = Valid (heartbeat_frame (JNum (Finite 1704067200000)) []) \<and>
   validateMessage (sample_runtime [heartbeat_frame (JNum (Finite 1704067200000)) []]) 1704066899000
     (show_json (heartbeat_frame (JNum (Finite 1704067200000)) [])) = Invalid ''Message timestamp too old'' \<and>
   validateMessage (sample_runtime [heartbeat_frame (JNum (Finite 1704067200000)) []]) 1704066901000
     (show_json (heartbeat_frame (JNum (Finite 1704067200000)) [])) = Valid (heartbeat_frame (JNum (Finite 1704067200000)) []) \<and>
   validateMessage (sample_runtime [heartbeat_frame (JNum (Finite 1704067200000)) []]) 1704067500000
     (show_json (heartbeat_frame (JNum (Finite 1704067200000)) [])) = Valid (heartbeat_frame (JNum (Finite 1704067200000)) [])"
proof -
  let ?v = "heartbeat_frame (JNum (Finite 1704067200000)) []"
  let ?rt = "sample_runtime [?v]"
  have p: "JSON_parse ?rt (show_json ?v) = Some ?v" by (rule sample_parse)
  have r: "required_fields ?v" unfolding heartbeat_frame_def by (rule sample_required) simp_all
  have "TimeClip (Finite (of_int 1704067200000)) = Some 1704067200000"
    by (rule TimeClip_int) simp
  then have d: "newDate ?rt (getprop ?v ''timestamp'') = Some (Some 1704067200000)"
    by (simp add: heartbeat_frame_def sample_timestamp)
  have s: "truthy (getprop ?v ''signature'') \<longrightarrow> signature_ok ?rt ?v"
    by (simp add: heartbeat_frame_def sample_signature)
  show ?thesis
    using freshness_boundary [OF p r d s, of 1704067501000]
      freshness_boundary [OF p r d s, of 1704067499000]
      freshness_boundary [OF p r d s, of 1704066899000]
      freshness_boundary [OF p r d s, of 1704066901000]
      freshness_boundary [OF p r d s, of 1704067500000]
    by simp
qed

text \<open>
  Claim C9. A message whose \<open>timestamp\<close> is a string that \<^verbatim>\<open>Date.parse\<close> does not
  understand passes the freshness check at every clock reading (the time difference is NaN
  and \<^verbatim>\<open>NaN > 5\<close> is false); it is valid when the required-field check passes and an
  attached signature matches.
\<close>

theorem unparsable_timestamp_passes:
  assumes "JSON_parse rt data = Some parsed" and "required_fields parsed"
    and "getprop parsed ''timestamp'' = Some (JStr s)" and "Date_parse rt s = None"
    and "truthy (getprop parsed ''signature'') \<longrightarrow> signature_ok rt parsed"
  shows "validateMessage rt now data = Valid parsed"
proof -
  have d: "newDate rt (getprop parsed ''timestamp'') = Some None"
    using assms(3,4) by simp
  show ?thesis
    using assms(5)
    by (auto simp: validateMessage_checked[OF assms(1,2) d] js_gt_timeDiff_NaN signature_ok_def
        split: option.splits)
qed

text \<open>A heartbeat whose timestamp is the string \<open>not a date\<close>.\<close>

theorem unparsable_timestamp_passes_witness:
  "validateMessage (sample_runtime [heartbeat_frame (JStr ''not a date'') []]) 1704067260000
     (show_json (heartbeat_frame (JStr ''not a date'') []))
   = Valid (heartbeat_frame (JStr ''not a date'') [])"
proof -
  let ?v = "heartbeat_frame (JStr ''not a date'') []"
  let ?rt = "sample_runtime [?v]"
  have r: "required_fields ?v" unfolding heartbeat_frame_def by (rule sample_required) simp_all
  have t: "getprop ?v ''timestamp'' = Some (JStr ''not a date'')"
    by (simp add: heartbeat_frame_def sample_timestamp)
  have d: "Date_parse ?rt ''not a date'' = None" by (simp add: sample_runtime_def)
  have s: "truthy (getprop ?v ''signature'') \<longrightarrow> signature_ok ?rt ?v"
    by (simp add: heartbeat_frame_def sample_signature)
  show ?thesis by (rule unparsable_timestamp_passes [OF sample_parse r t d s])
qed

section \<open>Properties of the registry and the handlers\<close>

lemma payload_or_empty_idem [simp]:
  "payload_or_empty (Some (payload_or_empty (Some p))) = payload_or_empty (Some p)"
  by (cases p) (simp_all add: payload_or_empty_def)

lemma payload_or_empty_obj [simp]: "payload_or_empty (Some (JObj kvs)) = JObj kvs"
  by (simp add: payload_or_empty_def)

lemma createMessage_signed:
  "createMessage rt fr type from to payload = Some (signed_message rt fr type from to payload)"
  by (simp add: createMessage_def signMessage_def unsigned_message_def signed_message_def)

lemma signed_message_ok: "signature_ok rt (signed_message rt fr type from to payload)"
  by (simp add: signature_ok_def signMessage_def unsigned_message_def signed_message_def)

text \<open>A message the relay creates with an object as payload is the frame of the wire
  format, and its signature verifies.\<close>

lemma createMessage_relay:
  "createMessage rt fr type ''relay'' to (JObj kvs) = Some (relay_frame rt fr type to (JObj kvs))"
  by (simp add: createMessage_def signMessage_def unsigned_message_def payload_or_empty_def
      relay_frame_def)



lemma length_delete_distinct:
  "distinct (map fst m) \<Longrightarrow>
   length (AList.delete k m) = (if k \<in> fst ` set m then length m - 1 else length m)"
proof (induction m)
  case Nil
  then show ?case by simp
next
  case (Cons p m)
  obtain a b where p: "p = (a, b)" by (cases p)
  show ?case
  proof (cases "a = k")
    case True
    with Cons.prems p have "k \<notin> fst ` set m" by auto
    with True p show ?thesis by simp
  next
    case False
    have "k \<in> fst ` set m \<Longrightarrow> 0 < length m" by auto
    with False Cons p show ?thesis by (auto simp: image_iff)
  qed
qed



lemma ws_send_open: "readyState (sockets w c) = OPEN \<Longrightarrow> ws_send c data w = Some (deliver c data w)"
  by (simp add: ws_send_def deliver_def)

lemma receives_Nil [simp]: "receives ex [] w c = 0"
  by (simp add: receives_def)

lemma deliver_each_zero [simp]: "deliver_each data (\<lambda>c. 0) w = w"
  by (simp add: deliver_each_def)

lemma receives_deliver [simp]: "receives ex m (deliver c data w) = receives ex m w"
  by (auto simp: receives_def deliver_def fun_eq_iff intro!: arg_cong [where f = length] filter_cong)



lemma sent_deliver_each [simp]:
  "sent (sockets (deliver_each data n w) c) = sent (sockets w c) @ replicate (n c) data"
  by (simp add: deliver_each_def)

lemma connectedServers_deliver_each [simp]:
  "connectedServers (deliver_each data n w) = connectedServers w"
  by (simp add: deliver_each_def)

lemma conns_deliver_each [simp]: "conns (deliver_each data n w) = conns w"
  by (simp add: deliver_each_def)

lemma readyState_deliver_each [simp]:
  "readyState (sockets (deliver_each data n w) c) = readyState (sockets w c)"
  by (simp add: deliver_each_def)


lemma set_update_cases:
  "distinct (map fst m) \<Longrightarrow> e \<in> set (AList.update k v m) \<Longrightarrow>
   e = (k, v) \<or> (e \<in> set m \<and> fst e \<noteq> k)"
  by (induction m) (auto split: if_splits simp: image_iff)


lemma receives_same_readyState:
  "(\<And>c. readyState (sockets w' c) = readyState (sockets w c)) \<Longrightarrow> receives ex m w' = receives ex m w"
  by (simp add: receives_def fun_eq_iff)



lemma set_delete: "set (AList.delete k m) = {e \<in> set m. fst e \<noteq> k}"
  by (auto simp: AList.delete_eq)

lemma Map_has_get: "Map_has m k \<longleftrightarrow> Map_get m k \<noteq> None"
  by (simp add: Map_has_def Map_get_def map_of_eq_None_iff)

lemma sendToServer_string:
  assumes "\<forall>e \<in> set (connectedServers w). fst e = k \<longrightarrow> (\<exists>c. ws (snd e) = Native c)"
  shows "sendToServer rt (Some (JStr k)) message w =
           Some (open_transport w k \<noteq> None, deliver_to (open_transport w k) (JSON_stringify rt message) w)"
proof (cases "Map_get (connectedServers w) k")
  case None
  then show ?thesis
    by (simp add: sendToServer_def Map_get_value_def open_transport_def deliver_to_def)
next
  case (Some info)
  then have "(k, info) \<in> set (connectedServers w)"
    by (auto simp: Map_get_def dest: map_of_SomeD)
  with assms obtain c where c: "ws info = Native c" by auto
  with Some show ?thesis
    by (simp add: sendToServer_def Map_get_value_def open_transport_def deliver_to_def
        ws_is_open_def ws_field_send_def ws_send_open)
qed

lemma open_transport_Some_has: "open_transport w k = Some c \<Longrightarrow> Map_has (connectedServers w) k"
  by (auto simp: open_transport_def Map_has_get split: option.splits)

lemma key_inv_iff: "key_inv m \<longleftrightarrow> (\<forall>e \<in> set m. serverId (snd e) = JStr (fst e))"
  by (simp add: key_inv_def list_all_iff)

lemma key_inv_subset: "key_inv m \<Longrightarrow> set m' \<subseteq> set m \<Longrightarrow> key_inv m'"
  by (auto simp: key_inv_iff)

lemma set_update_subset: "set (AList.update k v m) \<subseteq> insert (k, v) (set m)"
  by (induction m) auto

lemma key_inv_set: "key_inv m \<Longrightarrow> serverId v = JStr k \<Longrightarrow> key_inv (Map_set k v m)"
  using set_update_subset [of k v m] by (auto simp: key_inv_iff Map_set_def)

lemma key_inv_delete: "key_inv m \<Longrightarrow> key_inv (Map_delete k m)"
  by (auto simp: key_inv_iff Map_delete_def set_delete)

lemma key_inv_map_entry:
  "key_inv m \<Longrightarrow> (\<And>v. serverId (f v) = serverId v) \<Longrightarrow> key_inv (AList.map_entry k f m)"
  by (induction m) (auto simp: key_inv_def)

lemma key_inv_touch: "key_inv (connectedServers w) \<Longrightarrow> key_inv (connectedServers (touchLastSeen sid t w))"
  by (simp add: touchLastSeen_def key_inv_map_entry)

text \<open>The \<^verbatim>\<open>message\<close> listener on a valid message.\<close>

lemma on_message_ValidD:
  "on_message rt c sid data t_validate fr t_seen t_server w = Some w' \<Longrightarrow>
   validateMessage rt t_validate data = Valid message \<Longrightarrow>
   dispatch rt fr t_server sid message (touchLastSeen sid t_seen w) = Some w'"
  by (simp add: on_message_def split: option.splits)

lemma on_message_Valid:
  "validateMessage rt t_validate data = Valid message \<Longrightarrow>
   getprop message ''type'' = Some (JStr ty) \<Longrightarrow> getprop message ''to'' = Some (JStr to) \<Longrightarrow>
   on_message rt c sid data t_validate fr t_seen t_server w =
     dispatch rt fr t_server sid message (touchLastSeen sid t_seen w)"
  by (simp add: on_message_def)

text \<open>Sending changes no entry.\<close>

lemma ws_send_registry: "ws_send c data w = Some w' \<Longrightarrow> connectedServers w' = connectedServers w"
  by (auto simp: ws_send_def split: ready_state.splits)

lemma ws_field_send_registry:
  "ws_field_send f data w = Some w' \<Longrightarrow> connectedServers w' = connectedServers w"
  by (auto simp: ws_field_send_def split: field.splits dest: ws_send_registry)

lemma forEach_send_registry:
  "forEach_send data ex xs w = Some w' \<Longrightarrow> connectedServers w' = connectedServers w"
proof (induction xs arbitrary: w)
  case Nil
  then show ?case by simp
next
  case (Cons p xs)
  obtain k info where p: "p = (k, info)" by (cases p)
  from Cons.prems Cons.IH show ?case
    unfolding p
    by (auto split: if_splits option.splits bool.splits dest!: ws_field_send_registry)
qed

lemma broadcastToAll_registry:
  "broadcastToAll rt message ex w = Some w' \<Longrightarrow> connectedServers w' = connectedServers w"
  unfolding broadcastToAll_def by (rule forEach_send_registry)

lemma sendToServer_registry:
  "sendToServer rt k message w = Some (b, w') \<Longrightarrow> connectedServers w' = connectedServers w"
  by (auto simp: sendToServer_def split: option.splits bool.splits dest: ws_field_send_registry)

lemma handleHeartbeat_registry:
  "handleHeartbeat rt fr t sid message w = Some w' \<Longrightarrow> connectedServers w' = connectedServers w"
  by (auto simp: handleHeartbeat_def split: option.splits dest: ws_field_send_registry)

lemma handleTeleportRequest_registry:
  "handleTeleportRequest rt fr sid message w = Some w' \<Longrightarrow> connectedServers w' = connectedServers w"
  by (auto simp: handleTeleportRequest_def Let_def
      split: if_splits option.splits bool.splits prod.splits dest!: sendToServer_registry)

lemma handleTeleportResponse_registry:
  "handleTeleportResponse rt sid message w = Some w' \<Longrightarrow> connectedServers w' = connectedServers w"
  by (auto simp: handleTeleportResponse_def split: option.splits json.splits
      dest: broadcastToAll_registry)

lemma handleStatusUpdate_registry:
  "handleStatusUpdate rt sid message w = Some w' \<Longrightarrow> connectedServers w' = connectedServers w"
  by (auto simp: handleStatusUpdate_def split: if_splits dest: broadcastToAll_registry)

text \<open>What \<open>Object.assign\<close> does to \<open>serverId\<close>.\<close>

lemma set_proto_fields [simp]:
  "serverId (set_proto v info) = serverId info"
  "lastSeen (set_proto v info) = lastSeen info"
  "ws (set_proto v info) = ws info"
  by (simp_all add: set_proto_def proto_setter_def split: option.splits json.splits)

lemma serverId_set_prop:
  "serverId (set_prop kv info) = (if fst kv = ''serverId'' then snd kv else serverId info)"
  by (simp add: set_prop_def)

lemma serverId_fold_absent:
  "''serverId'' \<notin> fst ` set ps \<Longrightarrow> serverId (fold set_prop ps info) = serverId info"
  by (induction ps arbitrary: info) (auto simp: serverId_set_prop)

lemma serverId_fold_present:
  "distinct (map fst ps) \<Longrightarrow> map_of ps ''serverId'' = Some v \<Longrightarrow>
   serverId (fold set_prop ps info) = v"
proof (induction ps arbitrary: info)
  case Nil
  then show ?case by simp
next
  case (Cons p ps)
  show ?case
  proof (cases "fst p = ''serverId''")
    case True
    with Cons.prems have "''serverId'' \<notin> fst ` set ps" and "snd p = v"
      by (auto simp: image_iff)
    with True show ?thesis by (simp add: serverId_fold_absent serverId_set_prop)
  next
    case False
    with Cons show ?thesis by simp
  qed
qed

lemma digits_chars: "set (digits n) \<subseteq> set ''0123456789''"
proof (induction n rule: digits.induct)
  case (1 n)
  have nth: "\<And>i. i < 10 \<Longrightarrow> ''0123456789'' ! i \<in> set ''0123456789''"
    by (rule nth_mem) simp
  show ?case
  proof (cases "n < 10")
    case True
    then show ?thesis using nth [of n] by (subst digits.simps) simp
  next
    case False
    with "1" nth [of "n mod 10"] show ?thesis by (subst digits.simps) simp
  qed
qed

lemma digits_not_serverId: "digits n \<noteq> ''serverId''"
proof
  assume "digits n = ''serverId''"
  with digits_chars [of n] show False by simp
qed

lemma indexed_no_serverId: "''serverId'' \<notin> fst ` set (indexed xs)"
  by (auto simp: indexed_def digits_not_serverId [THEN not_sym])

lemma own_props_distinct_or_absent:
  "distinct (map fst (own_props payload)) \<or> ''serverId'' \<notin> fst ` set (own_props payload)"
  by (cases payload) (simp_all add: indexed_no_serverId)

lemma serverId_Object_assign:
  "serverId (Object_assign info payload) =
     (case map_of (own_props payload) ''serverId'' of None \<Rightarrow> serverId info | Some v \<Rightarrow> v)"
proof (cases "map_of (own_props payload) ''serverId''")
  case None
  then have "''serverId'' \<notin> fst ` set (own_props payload)" by (simp add: map_of_eq_None_iff)
  with None show ?thesis by (simp add: Object_assign_def serverId_fold_absent)
next
  case (Some v)
  then have "''serverId'' \<in> fst ` set (own_props payload)"
    by (metis map_of_eq_None_iff option.distinct(1))
  with own_props_distinct_or_absent [of payload] have "distinct (map fst (own_props payload))" by blast
  with Some show ?thesis by (simp add: Object_assign_def serverId_fold_present)
qed

lemma cleanup_loop_subset: "cleanup_loop rt now xs m = Some m' \<Longrightarrow> set m' \<subseteq> set m"
proof (induction xs arbitrary: m)
  case Nil
  then show ?case by simp
next
  case (Cons p xs)
  obtain k info where p: "p = (k, info)" by (cases p)
  from Cons.prems show ?case
    unfolding p
    by (auto split: option.splits bool.splits dest!: Cons.IH simp: Map_delete_def set_delete)
qed

lemma ws_close_registry [simp]: "connectedServers (ws_close c code reason w) = connectedServers w"
  by (simp add: ws_close_def split: ready_state.splits)

lemma on_connection_key_inv:
  assumes "on_connection rt c req t_connected t_seen fr_welcome fr_join w = Some w'"
    and "key_inv (connectedServers w)"
  shows "key_inv (connectedServers w')"
proof (cases "\<exists>sid. admitted req sid")
  case False
  then have "w' = (ws_close c 1008 ''Missing authentication or server ID'' w)\<lparr>conns := (conns w)(c := Closed)\<rparr> \<or>
             w' = (ws_close c 1008 ''Invalid token'' w)\<lparr>conns := (conns w)(c := Closed)\<rparr>"
    using assms(1)
    by (auto simp: on_connection_def admitted_def split: option.splits if_splits)
  with assms(2) show ?thesis by auto
next
  case True
  then obtain sid where a: "admitted req sid" ..
  let ?info = "admission_info req sid c t_connected t_seen"
  from a assms(1) have "connectedServers w' = Map_set sid ?info (connectedServers w)"
    by (auto simp: on_connection_def admitted_def Let_def admission_info_def
        split: option.splits if_splits
        dest!: broadcastToAll_registry ws_send_registry)
  moreover have "serverId ?info = JStr sid" by (simp add: admission_info_def)
  ultimately show ?thesis using assms(2) by (simp add: key_inv_set)
qed

lemma update_mem: "(k, v) \<in> set (AList.update k v m)"
  by (induction m) auto

lemma map_of_indexed_serverId [simp]: "map_of (indexed xs) ''serverId'' = None"
  using indexed_no_serverId [of xs] by (simp add: map_of_eq_None_iff)

lemma own_props_truthy:
  "map_of (own_props payload) ''serverId'' = Some v \<Longrightarrow> truthy (Some payload)"
  by (cases payload) simp_all

lemma Map_has_touch [simp]:
  "Map_has (connectedServers (touchLastSeen sid t w)) k = Map_has (connectedServers w) k"
  by (simp add: touchLastSeen_def Map_has_def dom_map_entry)

lemma handleServerRegister_key_inv:
  assumes "key_inv (connectedServers w)"
    and "handleServerRegister sid message w = Some w'"
  shows "key_inv (connectedServers w') \<longleftrightarrow>
           \<not> (Map_has (connectedServers w) sid \<and>
              (case getprop message ''payload'' of
                 None \<Rightarrow> False
               | Some payload \<Rightarrow>
                   (case map_of (own_props payload) ''serverId'' of
                      None \<Rightarrow> False
                    | Some v \<Rightarrow> v \<noteq> JStr sid)))"
proof (cases "Map_get (connectedServers w) sid")
  case None
  with assms show ?thesis by (simp add: handleServerRegister_def Map_has_get)
next
  case (Some info)
  then have mem: "(sid, info) \<in> set (connectedServers w)"
    by (auto simp: Map_get_def dest: map_of_SomeD)
  with assms(1) have own: "serverId info = JStr sid" by (auto simp: key_inv_iff)
  have has: "Map_has (connectedServers w) sid" using Some by (simp add: Map_has_get)
  show ?thesis
  proof (cases "getprop message ''payload''")
    case None
    with Some assms show ?thesis by (simp add: handleServerRegister_def)
  next
    case p: (Some payload)
    show ?thesis
    proof (cases "truthy (Some payload)")
      case False
      then have "map_of (own_props payload) ''serverId'' = None"
        using own_props_truthy [of payload] by (cases "map_of (own_props payload) ''serverId''") auto
      with False Some p assms show ?thesis by (simp add: handleServerRegister_def)
    next
      case True
      let ?info' = "Object_assign info payload"
      from True Some p assms(2) have w': "connectedServers w' = Map_set sid ?info' (connectedServers w)"
        by (auto simp: handleServerRegister_def)
      show ?thesis
      proof (cases "map_of (own_props payload) ''serverId''")
        case None
        then have "serverId ?info' = JStr sid" by (simp add: serverId_Object_assign own)
        with None p w' assms(1) show ?thesis by (simp add: key_inv_set)
      next
        case v: (Some v)
        then have sv: "serverId ?info' = v" by (simp add: serverId_Object_assign)
        show ?thesis
        proof (cases "v = JStr sid")
          case True
          with sv v p w' assms(1) show ?thesis by (simp add: key_inv_set)
        next
          case False
          have "(sid, ?info') \<in> set (connectedServers w')"
            unfolding w' Map_set_def by (rule update_mem)
          with sv False have "\<not> key_inv (connectedServers w')"
            by (auto simp: key_inv_iff intro!: bexI [of _ "(sid, ?info')"])
          with False v p has show ?thesis by simp
        qed
      qed
    qed
  qed
qed

lemma on_message_key_inv:
  assumes "key_inv (connectedServers w)"
    and "on_message rt c sid data t_validate fr t_seen t_server w = Some w'"
  shows "key_inv (connectedServers w') \<longleftrightarrow>
           \<not> (case validateMessage rt t_validate data of
                Valid message \<Rightarrow>
                  Map_has (connectedServers w) sid \<and>
                  getprop message ''type'' = Some (JStr ''server_register'') \<and>
                  (case getprop message ''payload'' of
                     None \<Rightarrow> False
                   | Some payload \<Rightarrow>
                       (case map_of (own_props payload) ''serverId'' of
                          None \<Rightarrow> False
                        | Some v \<Rightarrow> v \<noteq> JStr sid))
              | Invalid err \<Rightarrow> False)"
proof (cases "validateMessage rt t_validate data")
  case (Invalid err)
  with assms show ?thesis
    by (auto simp: on_message_def createMessage_signed dest!: ws_send_registry)
next
  case (Valid message)
  let ?w1 = "touchLastSeen sid t_seen w"
  have k1: "key_inv (connectedServers ?w1)" using assms(1) by (rule key_inv_touch)
  show ?thesis
  proof (cases "getprop message ''type'' = Some (JStr ''server_register'')")
    case True
    with on_message_ValidD [OF assms(2) Valid] have "handleServerRegister sid message ?w1 = Some w'"
      by (simp add: dispatch_def)
    from handleServerRegister_key_inv [OF k1 this] True Valid show ?thesis by simp
  next
    case False
    with on_message_ValidD [OF assms(2) Valid] have "connectedServers w' = connectedServers ?w1"
      by (auto simp: dispatch_def Let_def split: if_splits
          dest: handleHeartbeat_registry handleTeleportRequest_registry
            handleTeleportResponse_registry handleStatusUpdate_registry)
    with k1 False Valid show ?thesis by simp
  qed
qed

subsection \<open>Routing of a teleport request, and the sample states\<close>

lemma handleTeleportRequest_routing:
  assumes "getprop message ''to'' = Some (JStr target)"
    and "\<forall>e \<in> set (connectedServers w).
           fst e = sid \<or> fst e = target \<longrightarrow> (\<exists>c. ws (snd e) = Native c)"
  shows "(\<not> Map_has (connectedServers w) target \<longrightarrow>
            handleTeleportRequest rt fr sid message w =
              Some (deliver_to (open_transport w sid)
                      (JSON_stringify rt
                         (signed_message rt fr ''teleport_response'' ''relay'' sid
                            (failure_payload (getprop message ''id'') ''SERVER_NOT_FOUND''
                               (''Target server '' @ target @ '' not found'')))) w)) \<and>
         (Map_has (connectedServers w) target \<and> open_transport w target = None \<longrightarrow>
            handleTeleportRequest rt fr sid message w =
              Some (deliver_to (open_transport w sid)
                      (JSON_stringify rt
                         (signed_message rt fr ''teleport_response'' ''relay'' sid
                            (failure_payload (getprop message ''id'') ''TARGET_UNAVAILABLE''
                               (''Target server '' @ target @ '' is not available'')))) w)) \<and>
         (\<forall>c. open_transport w target = Some c \<longrightarrow>
            handleTeleportRequest rt fr sid message w =
              Some (deliver c (JSON_stringify rt message) w))"
proof -
  have s: "\<forall>e \<in> set (connectedServers w). fst e = sid \<longrightarrow> (\<exists>c. ws (snd e) = Native c)"
    and t: "\<forall>e \<in> set (connectedServers w). fst e = target \<longrightarrow> (\<exists>c. ws (snd e) = Native c)"
    using assms(2) by auto
  note to_sender = sendToServer_string [OF s]
  note to_target = sendToServer_string [OF t]
  show ?thesis
  proof (intro conjI impI allI)
    assume "\<not> Map_has (connectedServers w) target"
    then show "handleTeleportRequest rt fr sid message w =
              Some (deliver_to (open_transport w sid)
                      (JSON_stringify rt
                         (signed_message rt fr ''teleport_response'' ''relay'' sid
                            (failure_payload (getprop message ''id'') ''SERVER_NOT_FOUND''
                               (''Target server '' @ target @ '' not found'')))) w)"
      using assms(1)
      by (simp add: handleTeleportRequest_def Map_has_value_def createMessage_signed to_sender)
  next
    assume "Map_has (connectedServers w) target \<and> open_transport w target = None"
    then show "handleTeleportRequest rt fr sid message w =
              Some (deliver_to (open_transport w sid)
                      (JSON_stringify rt
                         (signed_message rt fr ''teleport_response'' ''relay'' sid
                            (failure_payload (getprop message ''id'') ''TARGET_UNAVAILABLE''
                               (''Target server '' @ target @ '' is not available'')))) w)"
      using assms(1)
      by (simp add: handleTeleportRequest_def Map_has_value_def createMessage_signed to_sender
          to_target deliver_to_def)
  next
    fix c assume c: "open_transport w target = Some c"
    then have "Map_has (connectedServers w) target" by (rule open_transport_Some_has)
    with c show "handleTeleportRequest rt fr sid message w =
              Some (deliver c (JSON_stringify rt message) w)"
      using assms(1)
      by (simp add: handleTeleportRequest_def Map_has_value_def to_target deliver_to_def)
  qed
qed

lemma map_entry_mem:
  "e \<in> set (AList.map_entry k f m) \<Longrightarrow>
   \<exists>e0 \<in> set m. fst e0 = fst e \<and> (snd e = snd e0 \<or> snd e = f (snd e0))"
  by (induction m) (auto split: if_splits)

lemma open_transport_touch [simp]: "open_transport (touchLastSeen sid t w) k = open_transport w k"
  by (auto simp: open_transport_def touchLastSeen_def Map_get_def map_of_map_entry
      split: option.splits field.splits)

lemma native_touch:
  assumes "\<forall>e \<in> set (connectedServers w). P (fst e) \<longrightarrow> (\<exists>c. ws (snd e) = Native c)"
  shows "\<forall>e \<in> set (connectedServers (touchLastSeen sid t w)). P (fst e) \<longrightarrow> (\<exists>c. ws (snd e) = Native c)"
proof (cases "Map_has (connectedServers w) sid")
  case False
  with assms show ?thesis by (simp add: touchLastSeen_def)
next
  case True
  show ?thesis
  proof (intro ballI impI)
    fix e assume "e \<in> set (connectedServers (touchLastSeen sid t w))" and p: "P (fst e)"
    with True have "e \<in> set (AList.map_entry sid (\<lambda>info. info\<lparr>lastSeen := Native t\<rparr>) (connectedServers w))"
      by (simp add: touchLastSeen_def)
    from map_entry_mem [OF this] obtain e0 where e0: "e0 \<in> set (connectedServers w)" "fst e0 = fst e"
      and "snd e = snd e0 \<or> snd e = (snd e0)\<lparr>lastSeen := Native t\<rparr>" by blast
    then have "ws (snd e) = ws (snd e0)" by auto
    with assms e0 p show "\<exists>c. ws (snd e) = Native c" by auto
  qed
qed

lemma sample_valid:
  assumes "ty \<noteq> []" and "to \<noteq> []" and "i \<noteq> []" and "0 < now" and "now \<le> 8640000000000000"
    and "map_of rest ''signature'' = None"
  shows "validateMessage (sample_runtime [sample_frame ty (JStr i) to (JNum (Finite (of_int now))) rest])
           now (show_json (sample_frame ty (JStr i) to (JNum (Finite (of_int now))) rest)) =
         Valid (sample_frame ty (JStr i) to (JNum (Finite (of_int now))) rest)"
proof -
  let ?v = "sample_frame ty (JStr i) to (JNum (Finite (of_int now))) rest"
  have r: "required_fields ?v" using assms(1-4) by (intro sample_required) simp_all
  have "TimeClip (Finite (of_int now)) = Some now" using assms(4,5) by (intro TimeClip_int) simp
  then have d: "newDate (sample_runtime [?v]) (getprop ?v ''timestamp'') = Some (Some now)"
    by (simp add: sample_timestamp)
  show ?thesis
    using assms(6)
    by (simp add: validateMessage_checked [OF sample_parse r d] js_gt_timeDiff sample_signature)
qed

lemma sample_info_simps [simp]:
  "serverId (sample_info sid c t) = JStr sid"
  "capabilities (sample_info sid c t) = JArr []"
  "lastSeen (sample_info sid c t) = Native t"
  "ws (sample_info sid c t) = Native c"
  by (simp_all add: sample_info_def admission_info_def sample_headers_def)


lemma two_peers_simps:
  "conns (two_peers t) 0 = Authenticated ''alpha''"
  "connectedServers (two_peers t) = [(''alpha'', sample_info ''alpha'' 0 t), (''beta'', sample_info ''beta'' 1 t)]"
  "sockets (two_peers t) c = open_socket"
  by (simp_all add: two_peers_def)

lemma teleport_frame_valid:
  "target \<noteq> [] \<Longrightarrow> 0 < now \<Longrightarrow> now \<le> 8640000000000000 \<Longrightarrow>
   validateMessage (sample_runtime [teleport_frame target now]) now (show_json (teleport_frame target now)) =
     Valid (teleport_frame target now)"
  unfolding teleport_frame_def by (rule sample_valid) simp_all

lemma teleport_frame_props:
  "getprop (teleport_frame target now) ''type'' = Some (JStr ''teleport_request'')"
  "getprop (teleport_frame target now) ''to'' = Some (JStr target)"
  "getprop (teleport_frame target now) ''id'' = Some (JStr ''m-2'')"
  by (simp_all add: teleport_frame_def sample_frame_def)

lemma sample_stringify: "JSON_stringify (sample_runtime fs) = show_json" by (simp add: sample_runtime_def)

lemma run_append:
  "run rt (xs @ ys) w = (case run rt xs w of None \<Rightarrow> None | Some w' \<Rightarrow> run rt ys w')"
  by (induction xs arbitrary: w) (auto split: option.splits)

lemma register_frame_valid:
  "0 < now \<Longrightarrow> now \<le> 8640000000000000 \<Longrightarrow>
   validateMessage (sample_runtime [register_frame payload now]) now (show_json (register_frame payload now)) =
     Valid (register_frame payload now)"
  unfolding register_frame_def by (rule sample_valid) simp_all

lemma register_frame_props:
  "getprop (register_frame payload now) ''type'' = Some (JStr ''server_register'')"
  "getprop (register_frame payload now) ''payload'' = Some payload"
  "getprop (register_frame payload now) ''to'' = Some (JStr ''relay'')"
  by (simp_all add: register_frame_def sample_frame_def)

lemma key_inv_two_peers: "key_inv (connectedServers (two_peers t))"
  by (simp add: key_inv_def two_peers_simps)

lemma step_register:
  "0 < now \<Longrightarrow> now \<le> 8640000000000000 \<Longrightarrow> truthy (Some payload) \<Longrightarrow>
   step (sample_runtime [register_frame payload now])
     (Frame 0 (show_json (register_frame payload now)) now fr now now) (two_peers t) =
   Some ((two_peers t)\<lparr>connectedServers :=
           [(''alpha'', Object_assign ((sample_info ''alpha'' 0 t)\<lparr>lastSeen := Native now\<rparr>) payload),
            (''beta'', sample_info ''beta'' 1 t)]\<rparr>)"
  by (simp add: two_peers_simps register_frame_props
      on_message_Valid [OF register_frame_valid register_frame_props(1) register_frame_props(3)]
      dispatch_def touchLastSeen_def Map_has_def handleServerRegister_def Map_get_def Map_set_def)

subsection \<open>Intact registries\<close>

text \<open>
  The theorems about admission, close and cleanup below are stated for registries whose
  entries still have, in the properties the handler reads, what admission and the
  \<open>lastSeen\<close> update stored. Every state of a clean run from the initial state is intact
  (\<open>reachable_intact\<close>), and an intact state meets those hypotheses
  (\<open>intact_suffices\<close>). A run in which a \<open>server_register\<close> payload names
  \<open>serverId\<close>, \<open>lastSeen\<close> or \<open>ws\<close> can leave them.
\<close>

lemma intact_entry_iff:
  "intact_entry w e \<longleftrightarrow>
     serverId (snd e) = JStr (fst e) \<and> (\<exists>t. lastSeen (snd e) = Native t) \<and>
     (\<exists>c. ws (snd e) = Native c \<and> conns w c \<noteq> Connecting)"
  by (cases "lastSeen (snd e)"; cases "ws (snd e)") (simp_all add: intact_entry_def)

lemma intact_iff:
  "intact w \<longleftrightarrow> distinct (map fst (connectedServers w)) \<and>
     (\<forall>e \<in> set (connectedServers w). serverId (snd e) = JStr (fst e) \<and>
        (\<exists>t. lastSeen (snd e) = Native t) \<and> (\<exists>c. ws (snd e) = Native c \<and> conns w c \<noteq> Connecting))"
  by (simp add: intact_def list_all_iff intact_entry_iff)

lemma intact_initial: "intact initial"
  by (simp add: intact_def initial_def)

text \<open>Sending changes neither the entries nor the connection states.\<close>

lemma ws_send_conns: "ws_send c data w = Some w' \<Longrightarrow> conns w' = conns w"
  by (auto simp: ws_send_def split: ready_state.splits)

lemma ws_field_send_conns: "ws_field_send f data w = Some w' \<Longrightarrow> conns w' = conns w"
  by (auto simp: ws_field_send_def split: field.splits dest: ws_send_conns)

lemma forEach_send_conns: "forEach_send data ex xs w = Some w' \<Longrightarrow> conns w' = conns w"
proof (induction xs arbitrary: w)
  case Nil
  then show ?case by simp
next
  case (Cons p xs)
  obtain k info where p: "p = (k, info)" by (cases p)
  from Cons.prems Cons.IH show ?case
    unfolding p
    by (auto split: if_splits option.splits bool.splits dest!: ws_field_send_conns)
qed

lemma broadcastToAll_conns: "broadcastToAll rt message ex w = Some w' \<Longrightarrow> conns w' = conns w"
  unfolding broadcastToAll_def by (rule forEach_send_conns)

lemma sendToServer_conns: "sendToServer rt k message w = Some (b, w') \<Longrightarrow> conns w' = conns w"
  by (auto simp: sendToServer_def split: option.splits bool.splits dest: ws_field_send_conns)

lemma handleHeartbeat_conns:
  "handleHeartbeat rt fr t sid message w = Some w' \<Longrightarrow> conns w' = conns w"
  by (auto simp: handleHeartbeat_def split: option.splits dest: ws_field_send_conns)

lemma handleTeleportRequest_conns:
  "handleTeleportRequest rt fr sid message w = Some w' \<Longrightarrow> conns w' = conns w"
  by (auto simp: handleTeleportRequest_def Let_def
      split: if_splits option.splits bool.splits prod.splits dest!: sendToServer_conns)

lemma handleTeleportResponse_conns:
  "handleTeleportResponse rt sid message w = Some w' \<Longrightarrow> conns w' = conns w"
  by (auto simp: handleTeleportResponse_def split: option.splits json.splits
      dest: broadcastToAll_conns)

lemma handleStatusUpdate_conns:
  "handleStatusUpdate rt sid message w = Some w' \<Longrightarrow> conns w' = conns w"
  by (auto simp: handleStatusUpdate_def split: if_splits dest: broadcastToAll_conns)

lemma conns_touch [simp]: "conns (touchLastSeen sid t w) = conns w"
  by (simp add: touchLastSeen_def)

lemma intact_cong:
  "intact w \<Longrightarrow> connectedServers w' = connectedServers w \<Longrightarrow> conns w' = conns w \<Longrightarrow> intact w'"
  by (simp add: intact_iff)

lemma intact_touch: "intact w \<Longrightarrow> intact (touchLastSeen sid t w)"
proof -
  assume i: "intact w"
  show ?thesis
  proof (cases "Map_has (connectedServers w) sid")
    case False
    with i show ?thesis by (simp add: touchLastSeen_def)
  next
    case True
    let ?m' = "AList.map_entry sid (\<lambda>info. info\<lparr>lastSeen := Native t\<rparr>) (connectedServers w)"
    have d: "distinct (map fst ?m')" using i by (simp add: intact_iff distinct_map_entry)
    have "\<forall>e \<in> set ?m'. serverId (snd e) = JStr (fst e) \<and>
        (\<exists>t. lastSeen (snd e) = Native t) \<and> (\<exists>c. ws (snd e) = Native c \<and> conns w c \<noteq> Connecting)"
    proof
      fix e assume "e \<in> set ?m'"
      from map_entry_mem [OF this] obtain e0 where e0: "e0 \<in> set (connectedServers w)" "fst e0 = fst e"
        and "snd e = snd e0 \<or> snd e = (snd e0)\<lparr>lastSeen := Native t\<rparr>" by blast
      moreover from i e0(1) obtain t0 c0 where "serverId (snd e0) = JStr (fst e0)"
        "lastSeen (snd e0) = Native t0" "ws (snd e0) = Native c0" "conns w c0 \<noteq> Connecting"
        unfolding intact_iff by blast
      ultimately show "serverId (snd e) = JStr (fst e) \<and>
        (\<exists>t. lastSeen (snd e) = Native t) \<and> (\<exists>c. ws (snd e) = Native c \<and> conns w c \<noteq> Connecting)"
        using e0(2) by auto
    qed
    with d True show ?thesis by (simp add: intact_iff touchLastSeen_def)
  qed
qed

lemma field_fold_absent:
  "''lastSeen'' \<notin> fst ` set ps \<Longrightarrow> lastSeen (fold set_prop ps info) = lastSeen info"
  "''ws'' \<notin> fst ` set ps \<Longrightarrow> ws (fold set_prop ps info) = ws info"
  by (induction ps arbitrary: info) (auto simp: set_prop_def)

lemma Object_assign_unreserved:
  assumes "\<not> reserved payload"
  shows "serverId (Object_assign info payload) = serverId info"
    and "lastSeen (Object_assign info payload) = lastSeen info"
    and "ws (Object_assign info payload) = ws info"
  using assms
  by (simp_all add: reserved_def Object_assign_def map_of_eq_None_iff serverId_fold_absent
      field_fold_absent)

lemma intact_set_same:
  assumes "intact w" and "Map_get (connectedServers w) sid = Some info"
    and "serverId info' = serverId info" and "lastSeen info' = lastSeen info" and "ws info' = ws info"
  shows "intact (w\<lparr>connectedServers := Map_set sid info' (connectedServers w)\<rparr>)"
proof -
  from assms(2) have mem: "(sid, info) \<in> set (connectedServers w)"
    by (auto simp: Map_get_def dest: map_of_SomeD)
  have d: "distinct (map fst (connectedServers w))" using assms(1) by (simp add: intact_iff)
  have "\<forall>e \<in> set (AList.update sid info' (connectedServers w)). serverId (snd e) = JStr (fst e) \<and>
        (\<exists>t. lastSeen (snd e) = Native t) \<and> (\<exists>c. ws (snd e) = Native c \<and> conns w c \<noteq> Connecting)"
  proof
    fix e assume "e \<in> set (AList.update sid info' (connectedServers w))"
    from set_update_cases [OF d this] have "e = (sid, info') \<or> e \<in> set (connectedServers w)" by blast
    moreover from assms(1) mem have "serverId info = JStr sid \<and>
        (\<exists>t. lastSeen info = Native t) \<and> (\<exists>c. ws info = Native c \<and> conns w c \<noteq> Connecting)"
      unfolding intact_iff by fastforce
    moreover from assms(1) have "e \<in> set (connectedServers w) \<Longrightarrow> serverId (snd e) = JStr (fst e) \<and>
        (\<exists>t. lastSeen (snd e) = Native t) \<and> (\<exists>c. ws (snd e) = Native c \<and> conns w c \<noteq> Connecting)"
      unfolding intact_iff by blast
    ultimately show "serverId (snd e) = JStr (fst e) \<and>
        (\<exists>t. lastSeen (snd e) = Native t) \<and> (\<exists>c. ws (snd e) = Native c \<and> conns w c \<noteq> Connecting)"
      using assms(3-5) by auto
  qed
  with d show ?thesis by (simp add: intact_iff Map_set_def distinct_update)
qed

lemma intact_subset:
  assumes "intact w" and "distinct (map fst m')" and "set m' \<subseteq> set (connectedServers w)"
    and "\<And>c. conns w c \<noteq> Connecting \<Longrightarrow> conns w' c \<noteq> Connecting" and "connectedServers w' = m'"
  shows "intact w'"
proof -
  have "\<forall>e \<in> set m'. serverId (snd e) = JStr (fst e) \<and>
        (\<exists>t. lastSeen (snd e) = Native t) \<and> (\<exists>c. ws (snd e) = Native c \<and> conns w' c \<noteq> Connecting)"
  proof
    fix e assume "e \<in> set m'"
    with assms(3) have "e \<in> set (connectedServers w)" by blast
    with assms(1) obtain t c where "serverId (snd e) = JStr (fst e)" "lastSeen (snd e) = Native t"
      "ws (snd e) = Native c" "conns w c \<noteq> Connecting"
      unfolding intact_iff by blast
    with assms(4) show "serverId (snd e) = JStr (fst e) \<and>
        (\<exists>t. lastSeen (snd e) = Native t) \<and> (\<exists>c. ws (snd e) = Native c \<and> conns w' c \<noteq> Connecting)"
      by simp
  qed
  with assms(2,5) show ?thesis by (simp add: intact_iff)
qed

lemma ws_close_conns [simp]: "conns (ws_close c code reason w) = conns w"
  by (simp add: ws_close_def split: ready_state.splits)

lemma ws_send_same:
  "ws_send c data w = Some w' \<Longrightarrow> connectedServers w' = connectedServers w \<and> conns w' = conns w"
  by (simp add: ws_send_registry ws_send_conns)

lemma broadcastToAll_same:
  "broadcastToAll rt message ex w = Some w' \<Longrightarrow>
   connectedServers w' = connectedServers w \<and> conns w' = conns w"
  by (simp add: broadcastToAll_registry broadcastToAll_conns)

lemma on_connection_effect:
  assumes "on_connection rt c req t_connected t_seen fr_welcome fr_join w = Some w'"
  shows "(connectedServers w' = connectedServers w \<and> conns w' = (conns w)(c := Closed)) \<or>
         (\<exists>sid. connectedServers w' =
                   Map_set sid (admission_info req sid c t_connected t_seen) (connectedServers w) \<and>
                 conns w' = (conns w)(c := Authenticated sid))"
proof (cases "\<exists>sid. admitted req sid")
  case False
  then have "w' = (ws_close c 1008 ''Missing authentication or server ID'' w)\<lparr>conns := (conns w)(c := Closed)\<rparr> \<or>
             w' = (ws_close c 1008 ''Invalid token'' w)\<lparr>conns := (conns w)(c := Closed)\<rparr>"
    using assms
    by (auto simp: on_connection_def admitted_def split: option.splits if_splits)
  then show ?thesis by auto
next
  case True
  then obtain sid where a: "admitted req sid" ..
  let ?info = "admission_info req sid c t_connected t_seen"
  from a assms have "connectedServers w' = Map_set sid ?info (connectedServers w) \<and>
      conns w' = (conns w)(c := Authenticated sid)"
    by (auto simp: on_connection_def admitted_def Let_def admission_info_def
        split: option.splits if_splits
        dest!: broadcastToAll_same ws_send_same)
  then show ?thesis by blast
qed

lemma cleanup_loop_distinct:
  "cleanup_loop rt now xs m = Some m' \<Longrightarrow> distinct (map fst m) \<Longrightarrow> distinct (map fst m')"
proof (induction xs arbitrary: m)
  case Nil
  then show ?case by simp
next
  case (Cons p xs)
  obtain k info where p: "p = (k, info)" by (cases p)
  from Cons.prems Cons.IH show ?case
    unfolding p
    by (auto split: option.splits bool.splits simp: Map_delete_def distinct_delete)
qed

lemma intact_admit:
  assumes "intact w"
  shows "intact (w'\<lparr>connectedServers :=
                    Map_set sid (admission_info req sid c t_connected t_seen) (connectedServers w),
                  conns := (conns w)(c := Authenticated sid)\<rparr>)"
proof -
  let ?info = "admission_info req sid c t_connected t_seen"
  have d: "distinct (map fst (connectedServers w))" using assms by (simp add: intact_iff)
  have "\<forall>e \<in> set (AList.update sid ?info (connectedServers w)).
          serverId (snd e) = JStr (fst e) \<and> (\<exists>t. lastSeen (snd e) = Native t) \<and>
          (\<exists>c'. ws (snd e) = Native c' \<and> ((conns w)(c := Authenticated sid)) c' \<noteq> Connecting)"
  proof
    fix e assume "e \<in> set (AList.update sid ?info (connectedServers w))"
    from set_update_cases [OF d this] show "serverId (snd e) = JStr (fst e) \<and>
        (\<exists>t. lastSeen (snd e) = Native t) \<and>
        (\<exists>c'. ws (snd e) = Native c' \<and> ((conns w)(c := Authenticated sid)) c' \<noteq> Connecting)"
    proof
      assume "e = (sid, ?info)"
      then show ?thesis by (simp add: admission_info_def)
    next
      assume "e \<in> set (connectedServers w) \<and> fst e \<noteq> sid"
      with assms obtain t c' where "serverId (snd e) = JStr (fst e)" "lastSeen (snd e) = Native t"
        "ws (snd e) = Native c'" "conns w c' \<noteq> Connecting"
        unfolding intact_iff by blast
      then show ?thesis by simp
    qed
  qed
  with d show ?thesis by (simp add: intact_iff Map_set_def distinct_update)
qed

lemma handlers_same:
  "handleHeartbeat rt fr t sid message w = Some w' \<Longrightarrow>
     connectedServers w' = connectedServers w \<and> conns w' = conns w"
  "handleTeleportRequest rt fr sid message w = Some w' \<Longrightarrow>
     connectedServers w' = connectedServers w \<and> conns w' = conns w"
  "handleTeleportResponse rt sid message w = Some w' \<Longrightarrow>
     connectedServers w' = connectedServers w \<and> conns w' = conns w"
  "handleStatusUpdate rt sid message w = Some w' \<Longrightarrow>
     connectedServers w' = connectedServers w \<and> conns w' = conns w"
  by (simp_all add: handleHeartbeat_registry handleTeleportRequest_registry
      handleTeleportResponse_registry handleStatusUpdate_registry
      handleHeartbeat_conns handleTeleportRequest_conns
      handleTeleportResponse_conns handleStatusUpdate_conns)

lemma on_message_other_same:
  assumes "on_message rt c sid data t_validate fr t_seen t_server w = Some w'"
    and "validateMessage rt t_validate data = Valid message"
    and "getprop message ''type'' \<noteq> Some (JStr ''server_register'')"
  shows "connectedServers w' = connectedServers (touchLastSeen sid t_seen w) \<and>
         conns w' = conns w"
proof -
  let ?w1 = "touchLastSeen sid t_seen w"
  from assms have "handleHeartbeat rt fr t_server sid message ?w1 = Some w' \<or>
      handleTeleportRequest rt fr sid message ?w1 = Some w' \<or>
      handleTeleportResponse rt sid message ?w1 = Some w' \<or>
      handleStatusUpdate rt sid message ?w1 = Some w' \<or> w' = ?w1"
    using on_message_ValidD [OF assms(1,2)] assms(3)
    by (simp add: dispatch_def Let_def split: if_splits)
  then show ?thesis
  proof (elim disjE)
    assume "handleHeartbeat rt fr t_server sid message ?w1 = Some w'"
    from handlers_same(1) [OF this] show ?thesis by simp
  next
    assume "handleTeleportRequest rt fr sid message ?w1 = Some w'"
    from handlers_same(2) [OF this] show ?thesis by simp
  next
    assume "handleTeleportResponse rt sid message ?w1 = Some w'"
    from handlers_same(3) [OF this] show ?thesis by simp
  next
    assume "handleStatusUpdate rt sid message ?w1 = Some w'"
    from handlers_same(4) [OF this] show ?thesis by simp
  next
    assume "w' = ?w1"
    then show ?thesis by simp
  qed
qed

lemma intact_step:
  assumes "intact w" and "step rt ev w = Some w'" and "\<not> overwrites rt ev w"
  shows "intact w'"
proof (cases ev)
  case (Connection c req t_connected t_seen fr_welcome fr_join)
  show ?thesis
  proof (cases "conns w c = Connecting")
    case False
    with Connection assms(1,2) show ?thesis by (auto split: conn.splits)
  next
    case True
    with Connection assms(2)
    have "on_connection rt c req t_connected t_seen fr_welcome fr_join w = Some w'" by simp
    from on_connection_effect [OF this] show ?thesis
    proof
      assume "connectedServers w' = connectedServers w \<and> conns w' = (conns w)(c := Closed)"
      with assms(1) show ?thesis by (intro intact_subset [of w _ w']) (simp_all add: intact_iff)
    next
      assume "\<exists>sid. connectedServers w' =
                   Map_set sid (admission_info req sid c t_connected t_seen) (connectedServers w) \<and>
                 conns w' = (conns w)(c := Authenticated sid)"
      then obtain sid where e: "connectedServers w' =
                   Map_set sid (admission_info req sid c t_connected t_seen) (connectedServers w)"
        "conns w' = (conns w)(c := Authenticated sid)" by blast
      from intact_admit [OF assms(1), where w' = w' and sid = sid and req = req and c = c
          and t_connected = t_connected and t_seen = t_seen] e
      show ?thesis by (simp add: intact_iff)
    qed
  qed
next
  case (Frame c data t_validate fr t_seen t_server)
  show ?thesis
  proof (cases "conns w c")
    case (Authenticated sid)
    with Frame assms(2) have m: "on_message rt c sid data t_validate fr t_seen t_server w = Some w'"
      by simp
    show ?thesis
    proof (cases "validateMessage rt t_validate data")
      case (Invalid err)
      with m have "connectedServers w' = connectedServers w" "conns w' = conns w"
        by (auto simp: on_message_def createMessage_signed dest: ws_send_registry ws_send_conns)
      with assms(1) show ?thesis by (rule intact_cong)
    next
      case (Valid message)
      let ?w1 = "touchLastSeen sid t_seen w"
      have i1: "intact ?w1" using assms(1) by (rule intact_touch)
      show ?thesis
      proof (cases "getprop message ''type'' = Some (JStr ''server_register'')")
        case False
        from on_message_other_same [OF m Valid False]
        have "connectedServers w' = connectedServers ?w1" "conns w' = conns ?w1" by simp_all
        with i1 show ?thesis by (rule intact_cong)
      next
        case True
        with on_message_ValidD [OF m Valid] have h: "handleServerRegister sid message ?w1 = Some w'"
          by (simp add: dispatch_def)
        show ?thesis
        proof (cases "Map_get (connectedServers ?w1) sid")
          case None
          with h i1 show ?thesis by (simp add: handleServerRegister_def)
        next
          case (Some info)
          show ?thesis
          proof (cases "getprop message ''payload''")
            case None
            with Some h i1 show ?thesis by (simp add: handleServerRegister_def)
          next
            case p: (Some payload)
            show ?thesis
            proof (cases "truthy (Some payload)")
              case False
              with p Some h i1 show ?thesis by (simp add: handleServerRegister_def)
            next
              case t: True
              from assms(3) Frame Authenticated Valid True p have nr: "\<not> reserved payload"
                by (simp add: overwrites_def)
              from t p Some h have "w' = ?w1\<lparr>connectedServers :=
                  Map_set sid (Object_assign info payload) (connectedServers ?w1)\<rparr>"
                by (simp add: handleServerRegister_def)
              with intact_set_same [OF i1 Some Object_assign_unreserved [OF nr]]
              show ?thesis by simp
            qed
          qed
        qed
      qed
    qed
  next
    case Connecting
    with Frame assms(1,2) show ?thesis by simp
  next
    case Closed
    with Frame assms(1,2) show ?thesis by simp
  qed
next
  case (Close c fr)
  show ?thesis
  proof (cases "conns w c")
    case (Authenticated sid)
    with Close assms(2) have "connectedServers w' = Map_delete sid (connectedServers w)"
      and "conns w' = (conns w)(c := Closed)"
      by (auto simp: on_close_def createMessage_signed socket_closed_def
          dest!: broadcastToAll_same)
    with assms(1) show ?thesis
      by (intro intact_subset [of w _ w'])
         (auto simp: Map_delete_def set_delete distinct_delete intact_iff)
  next
    case Connecting
    with Close assms(2) have "connectedServers w' = connectedServers w"
      and "conns w' = (conns w)(c := Closed)"
      by (auto simp: socket_closed_def)
    with assms(1) show ?thesis
      by (intro intact_subset [of w _ w']) (auto simp: intact_iff)
  next
    case Closed
    with Close assms(1,2) show ?thesis by simp
  qed
next
  case (Error c)
  with assms(1,2) show ?thesis by (auto simp: on_error_def split: conn.splits)
next
  case (Tick now)
  with assms(2) obtain m' where m': "cleanup_loop rt now (connectedServers w) (connectedServers w) = Some m'"
    and w': "w' = w\<lparr>connectedServers := m'\<rparr>"
    by (auto simp: cleanup_def)
  from assms(1) have "distinct (map fst (connectedServers w))" by (simp add: intact_iff)
  with m' have "distinct (map fst m')" by (rule cleanup_loop_distinct)
  moreover from m' have "set m' \<subseteq> set (connectedServers w)" by (rule cleanup_loop_subset)
  ultimately show ?thesis using assms(1) w' by (intro intact_subset [of w m' w']) simp_all
qed

lemma intact_run:
  "intact w \<Longrightarrow> clean rt evs w \<Longrightarrow> run rt evs w = Some w' \<Longrightarrow> intact w'"
proof (induction evs arbitrary: w)
  case Nil
  then show ?case by simp
next
  case (Cons ev evs)
  from Cons.prems(3) obtain w1 where s: "step rt ev w = Some w1" and r: "run rt evs w1 = Some w'"
    by (auto split: option.splits)
  from Cons.prems(2) s have c: "\<not> overwrites rt ev w" "clean rt evs w1" by simp_all
  from intact_step [OF Cons.prems(1) s c(1)] have "intact w1" .
  from Cons.IH [OF this c(2) r] show ?case .
qed

lemma reachable_intact:
  "clean rt evs initial \<Longrightarrow> run rt evs initial = Some w \<Longrightarrow> intact w"
  using intact_initial by (rule intact_run)

lemma intact_suffices:
  assumes "intact w"
  shows "distinct (map fst (connectedServers w))"
    and "\<forall>e \<in> set (connectedServers w). converts rt (lastSeen (snd e))"
    and "\<forall>e \<in> set (connectedServers w). fst e \<noteq> sid \<longrightarrow> (\<exists>c'. ws (snd e) = Native c')"
    and "\<forall>e \<in> set (connectedServers w). fst e \<noteq> sid \<longrightarrow>
           serverId (snd e) = JStr (fst e) \<and> (\<exists>t. lastSeen (snd e) = Native t) \<and>
           (\<exists>c'. ws (snd e) = Native c')"
proof -
  from assms show "distinct (map fst (connectedServers w))" by (simp add: intact_iff)
  have all: "\<forall>e \<in> set (connectedServers w). serverId (snd e) = JStr (fst e) \<and>
        (\<exists>t. lastSeen (snd e) = Native t) \<and> (\<exists>c. ws (snd e) = Native c \<and> conns w c \<noteq> Connecting)"
    using assms by (simp add: intact_iff)
  show "\<forall>e \<in> set (connectedServers w). converts rt (lastSeen (snd e))"
  proof
    fix e assume "e \<in> set (connectedServers w)"
    with all obtain t where "lastSeen (snd e) = Native t" by blast
    then show "converts rt (lastSeen (snd e))" by (simp add: converts_def)
  qed
  from all show "\<forall>e \<in> set (connectedServers w). fst e \<noteq> sid \<longrightarrow> (\<exists>c'. ws (snd e) = Native c')"
    by blast
  from all show "\<forall>e \<in> set (connectedServers w). fst e \<noteq> sid \<longrightarrow>
           serverId (snd e) = JStr (fst e) \<and> (\<exists>t. lastSeen (snd e) = Native t) \<and>
           (\<exists>c'. ws (snd e) = Native c')" by blast
qed

subsection \<open>Sample runs\<close>

text \<open>The sample runs, evaluated: the state after the two connections, and the state
  after the \<open>server_register\<close> frame of \<open>alpha\<close>.\<close>

lemma relay_frame_sample:
  "relay_frame (sample_runtime fs) fr type to payload = relay_frame (sample_runtime []) fr type to payload"
  by (simp add: relay_frame_def sample_runtime_def)



lemma run_snoc: "run rt xs w = Some w' \<Longrightarrow> run rt (xs @ [ev]) w = step rt ev w'"
  by (simp add: run_append split: option.splits)





lemma run_evicted:
  "run (sample_runtime fs) evicted_requester initial =
     Some \<lparr>connectedServers = [],
           sockets = (\<lambda>c. open_socket)
             (0 := open_socket\<lparr>sent := [show_json (relay_frame (sample_runtime []) (''uuid-1'', 1704067200000)
                        ''server_list'' ''alpha'' (JObj [(''servers'', JArr [])]))]\<rparr>),
           conns = (\<lambda>c. Connecting)(0 := Authenticated ''alpha'')\<rparr>"
  by (simp add: evicted_requester_def initial_def on_connection_def sample_headers_def
      createMessage_relay Map_set_def Map_values_def ws_send_def open_socket_def sample_stringify
      broadcastToAll_def cleanup_def stale_def timeout_def Map_delete_def relay_frame_def)
     (simp add: sample_runtime_def)?

subsection \<open>A closed connection stays closed\<close>







section \<open>Claims about the registry, routing and cleanup\<close>

text \<open>
  Claim C2, as amended. On a map with one entry per key, \<^verbatim>\<open>set(id, identity)\<close> followed
  by \<^verbatim>\<open>delete(id)\<close> leaves the size unchanged when \<open>id\<close> had no entry before, and
  makes it one less when \<open>id\<close> had an entry: the \<^verbatim>\<open>set\<close> replaces that entry and the
  \<^verbatim>\<open>delete\<close> removes it.
\<close>

theorem register_then_remove_size:
  assumes "distinct (map fst m)"
  shows "Map_size (Map_delete k (Map_set k v m)) =
           (if Map_has m k then Map_size m - 1 else Map_size m)"
  using assms
  by (simp add: Map_size_def Map_delete_def Map_set_def Map_has_def delete_update_same
      length_delete_distinct)

text \<open>
  With \<open>beta\<close> registered, registering and removing \<open>alpha\<close> leaves the size at 1.
\<close>

theorem register_then_remove_size_witness:
  "Map_size [(''beta'', sample_info ''beta'' 1 0)] = 1 \<and>
   Map_size (Map_delete ''alpha'' (Map_set ''alpha'' (sample_info ''alpha'' 0 0)
      [(''beta'', sample_info ''beta'' 1 0)])) = 1"
  using register_then_remove_size [of "[(''beta'', sample_info ''beta'' 1 0)]" "''alpha''"
      "sample_info ''alpha'' 0 0"]
  by (simp add: Map_size_def Map_has_def)

text \<open>
  Claim C2 as stated fails when the identifier is already registered: with \<open>alpha\<close>
  registered the size is 1; \<open>alpha\<close> registers again (a new connection) and is removed,
  and the size is 0.
\<close>

theorem register_then_remove_size_counterexample:
  "Map_size [(''alpha'', sample_info ''alpha'' 0 0)] = 1 \<and>
   Map_size (Map_delete ''alpha'' (Map_set ''alpha'' (sample_info ''alpha'' 2 60000)
      [(''alpha'', sample_info ''alpha'' 0 0)])) = 0"
  by (simp add: Map_size_def Map_delete_def Map_set_def)










text \<open>
  Claim C4. The failure response is not always sent to the requester: the handler
  addresses the \<open>teleport_response\<close> to the requester's identifier and hands it to
  \<^verbatim>\<open>sendToServer\<close>, which looks the identifier up in the registry, instead of writing it
  to the socket the request came in on. The frame below is a valid \<open>teleport_request\<close> of
  \<open>alpha\<close> to \<open>gamma\<close>, which has no entry. \<open>alpha\<close> connects, stays silent, and the
  cleanup six minutes later evicts its entry while its socket stays open with its
  listeners installed; the request it then sends changes nothing, so neither the
  requester nor anyone else is sent a \<open>teleport_response\<close>. Sent right after the
  connection instead, the same request is answered on socket 0 with one \<open>teleport_response\<close>
  of status \<open>failed\<close> and code \<open>SERVER_NOT_FOUND\<close>.
\<close>

theorem teleport_request_unanswered_after_eviction:
  "validateMessage (sample_runtime [teleport_frame ''gamma'' 1704067560000]) 1704067560000
     (show_json (teleport_frame ''gamma'' 1704067560000)) = Valid (teleport_frame ''gamma'' 1704067560000) \<and>
   getprop (teleport_frame ''gamma'' 1704067560000) ''type'' = Some (JStr ''teleport_request'') \<and>
   getprop (teleport_frame ''gamma'' 1704067560000) ''to'' = Some (JStr ''gamma'') \<and>
   run (sample_runtime [teleport_frame ''gamma'' 1704067560000]) evicted_requester initial =
     Some \<lparr>connectedServers = [],
           sockets = (\<lambda>c. open_socket)
             (0 := open_socket\<lparr>sent := [show_json (relay_frame (sample_runtime []) (''uuid-1'', 1704067200000)
                        ''server_list'' ''alpha'' (JObj [(''servers'', JArr [])]))]\<rparr>),
           conns = (\<lambda>c. Connecting)(0 := Authenticated ''alpha'')\<rparr> \<and>
   run (sample_runtime [teleport_frame ''gamma'' 1704067560000]) (evicted_requester @ [late_request]) initial =
     run (sample_runtime [teleport_frame ''gamma'' 1704067560000]) evicted_requester initial \<and>
   outbox 0 (run (sample_runtime [teleport_frame ''gamma'' 1704067560000])
               [Connection 0 (sample_headers ''alpha'') 1704067200000 1704067200000
                  (''uuid-1'', 1704067200000) (''uuid-2'', 1704067200000),
                late_request] initial) =
     Some [show_json (relay_frame (sample_runtime []) (''uuid-1'', 1704067200000)
                        ''server_list'' ''alpha'' (JObj [(''servers'', JArr [])])),
           show_json (relay_frame (sample_runtime []) (''uuid-3'', 1704067560000)
                        ''teleport_response'' ''alpha''
                        (JObj [(''request_id'', JStr ''m-2''), (''status'', JStr ''failed''),
                               (''error_code'', JStr ''SERVER_NOT_FOUND''),
                               (''message'', JStr ''Target server gamma not found'')]))]"
proof -
  let ?rt = "sample_runtime [teleport_frame ''gamma'' 1704067560000]"
  have v: "validateMessage ?rt 1704067560000
     (show_json (teleport_frame ''gamma'' 1704067560000)) = Valid (teleport_frame ''gamma'' 1704067560000)"
    by (rule teleport_frame_valid) simp_all
  note m = on_message_Valid [OF v teleport_frame_props(1) teleport_frame_props(2)]
  let ?W = "\<lparr>connectedServers = [],
           sockets = (\<lambda>c. open_socket)
             (0 := open_socket\<lparr>sent := [show_json (relay_frame (sample_runtime []) (''uuid-1'', 1704067200000)
                        ''server_list'' ''alpha'' (JObj [(''servers'', JArr [])]))]\<rparr>),
           conns = (\<lambda>c. Connecting)(0 := Authenticated ''alpha'')\<rparr>"
  have e: "run ?rt evicted_requester initial = Some ?W" by (rule run_evicted)
  have "step ?rt late_request ?W = Some ?W"
    by (simp add: late_request_def m dispatch_def touchLastSeen_def Map_has_def
        teleport_frame_props handleTeleportRequest_def Map_has_value_def createMessage_relay
        failure_payload_def sendToServer_def Map_get_value_def Map_get_def)
  then have r: "run ?rt (evicted_requester @ [late_request]) initial =
        run ?rt evicted_requester initial"
    by (simp add: run_snoc [OF e] e)
  have n: "outbox 0 (run ?rt
               [Connection 0 (sample_headers ''alpha'') 1704067200000 1704067200000
                  (''uuid-1'', 1704067200000) (''uuid-2'', 1704067200000),
                late_request] initial) =
     Some [show_json (relay_frame (sample_runtime []) (''uuid-1'', 1704067200000)
                        ''server_list'' ''alpha'' (JObj [(''servers'', JArr [])])),
           show_json (relay_frame (sample_runtime []) (''uuid-3'', 1704067560000)
                        ''teleport_response'' ''alpha''
                        (JObj [(''request_id'', JStr ''m-2''), (''status'', JStr ''failed''),
                               (''error_code'', JStr ''SERVER_NOT_FOUND''),
                               (''message'', JStr ''Target server gamma not found'')]))]"
    by (simp add: initial_def on_connection_def sample_headers_def
      createMessage_relay Map_set_def Map_values_def ws_send_def open_socket_def sample_stringify
      broadcastToAll_def late_request_def m dispatch_def touchLastSeen_def Map_has_def
      teleport_frame_props handleTeleportRequest_def Map_has_value_def
      failure_payload_def sendToServer_def Map_get_value_def Map_get_def outbox_def
      ws_is_open_def ws_field_send_def sample_runtime_def [of "[]"]
      relay_frame_sample [of "x # xs" for x xs])
  show ?thesis
    using v r e n by (simp add: teleport_frame_props)
qed

text \<open>
  At the end of that run the registry is empty and socket 0, the requester's, has been
  sent its welcome list and nothing after it.
\<close>

theorem teleport_request_unanswered_after_eviction_witness:
  "map_option connectedServers
     (run (sample_runtime [teleport_frame ''gamma'' 1704067560000])
        (evicted_requester @ [late_request]) initial) = Some [] \<and>
   outbox 0 (run (sample_runtime [teleport_frame ''gamma'' 1704067560000])
               (evicted_requester @ [late_request]) initial) =
     Some [show_json (relay_frame (sample_runtime []) (''uuid-1'', 1704067200000)
                        ''server_list'' ''alpha'' (JObj [(''servers'', JArr [])]))]"
  using teleport_request_unanswered_after_eviction
  by (simp add: outbox_def)

text \<open>
  Claim C8, as amended. When every entry's \<open>serverId\<close> is its key, the same holds after
  every event the relay handles without throwing (admission, a frame of any type with its
  \<open>lastSeen\<close> update, close, error, cleanup), with one exception: a valid
  \<open>server_register\<close> frame from a peer that has an entry, whose payload has a \<open>serverId\<close>
  property different from the peer's key. After such a frame the invariant does not hold.
\<close>

theorem key_invariant_broken_only_by_rename:
  assumes "key_inv (connectedServers w)" and "step rt ev w = Some w'"
  shows "key_inv (connectedServers w') \<longleftrightarrow> \<not> renames rt ev w"
proof (cases ev)
  case (Connection c req t_connected t_seen fr_welcome fr_join)
  with assms show ?thesis
    by (auto simp: renames_def split: conn.splits dest: on_connection_key_inv)
next
  case (Frame c data t_validate fr t_seen t_server)
  show ?thesis
  proof (cases "conns w c")
    case (Authenticated sid)
    with Frame assms(2) have "on_message rt c sid data t_validate fr t_seen t_server w = Some w'"
      by simp
    from on_message_key_inv [OF assms(1) this] Frame Authenticated show ?thesis
      by (simp add: renames_def)
  qed (use Frame assms in \<open>auto simp: renames_def\<close>)
next
  case (Close c fr)
  show ?thesis
  proof (cases "conns w c")
    case (Authenticated sid)
    with Close assms(2) have "connectedServers w' = Map_delete sid (connectedServers w)"
      by (auto simp: on_close_def createMessage_signed socket_closed_def dest!: broadcastToAll_registry)
    with assms(1) Close show ?thesis by (simp add: key_inv_delete renames_def)
  qed (use Close assms in \<open>auto simp: renames_def socket_closed_def\<close>)
next
  case (Error c)
  with assms show ?thesis by (auto simp: renames_def on_error_def split: conn.splits)
next
  case (Tick now)
  with assms(2) obtain m' where "cleanup_loop rt now (connectedServers w) (connectedServers w) = Some m'"
    and "connectedServers w' = m'"
    by (auto simp: cleanup_def)
  with assms(1) Tick show ?thesis
    by (auto simp: renames_def dest!: cleanup_loop_subset intro: key_inv_subset)
qed

text \<open>
  \<open>alpha\<close> registers a property \<open>motd\<close>: it is stored and the invariant still holds.
\<close>

theorem key_invariant_broken_only_by_rename_witness:
  "\<exists>w'. step (sample_runtime [register_frame (JObj [(''motd'', JStr ''hello'')]) 1704067260000])
           (Frame 0 (show_json (register_frame (JObj [(''motd'', JStr ''hello'')]) 1704067260000))
              1704067260000 (''uuid-3'', 1704067260000) 1704067260000 1704067260000)
           (two_peers 1704067200000) = Some w' \<and>
         key_inv (connectedServers w') \<and>
         map_option others (Map_get (connectedServers w') ''alpha'') = Some [(''motd'', JStr ''hello'')]"
proof -
  let ?p = "JObj [(''motd'', JStr ''hello'')]"
  let ?rt = "sample_runtime [register_frame ?p 1704067260000]"
  let ?ev = "Frame 0 (show_json (register_frame ?p 1704067260000))
              1704067260000 (''uuid-3'', 1704067260000) 1704067260000 1704067260000"
  let ?w' = "(two_peers 1704067200000)\<lparr>connectedServers :=
           [(''alpha'', Object_assign ((sample_info ''alpha'' 0 1704067200000)\<lparr>lastSeen := Native 1704067260000\<rparr>) ?p),
            (''beta'', sample_info ''beta'' 1 1704067200000)]\<rparr>"
  have s: "step ?rt ?ev (two_peers 1704067200000) = Some ?w'"
    by (intro step_register) simp_all
  have v: "validateMessage ?rt 1704067260000 (show_json (register_frame ?p 1704067260000)) =
             Valid (register_frame ?p 1704067260000)"
    by (rule register_frame_valid) simp_all
  have n: "\<not> renames ?rt ?ev (two_peers 1704067200000)"
    by (simp add: renames_def two_peers_simps v register_frame_props)
  have o: "map_option others (Map_get (connectedServers ?w') ''alpha'') = Some [(''motd'', JStr ''hello'')]"
    by (simp add: Map_get_def Object_assign_def set_prop_def sample_info_def admission_info_def)
  from key_invariant_broken_only_by_rename [OF key_inv_two_peers s] n
  have "key_inv (connectedServers ?w')" by blast
  with s o show ?thesis by blast
qed

text \<open>
  Claim C8 as stated (every registry operation preserves the invariant) fails:
  \<open>alpha\<close> sends a \<open>server_register\<close> whose payload names \<open>serverId\<close>, \<open>ws\<close> and
  \<open>lastSeen\<close>. The entry stored under \<open>alpha\<close> then has \<open>serverId\<close> \<open>beta\<close>, a
  \<open>ws\<close> that is \<^verbatim>\<open>null\<close> and a \<open>lastSeen\<close> that is a string.
\<close>

theorem key_invariant_broken_only_by_rename_counterexample:
  "key_inv (connectedServers (two_peers 1704067200000)) \<and>
   map_option connectedServers
     (step (sample_runtime [register_frame hijack 1704067260000])
        (Frame 0 (show_json (register_frame hijack 1704067260000)) 1704067260000
           (''uuid-3'', 1704067260000) 1704067260000 1704067260000) (two_peers 1704067200000)) =
     Some [(''alpha'', (sample_info ''alpha'' 0 1704067200000)
                         \<lparr>serverId := JStr ''beta'', lastSeen := Overwritten (JStr ''never''),
                           ws := Overwritten JNull\<rparr>),
           (''beta'', sample_info ''beta'' 1 1704067200000)] \<and>
   \<not> key_inv [(''alpha'', (sample_info ''alpha'' 0 1704067200000)
                         \<lparr>serverId := JStr ''beta'', lastSeen := Overwritten (JStr ''never''),
                           ws := Overwritten JNull\<rparr>),
               (''beta'', sample_info ''beta'' 1 1704067200000)]"
proof -
  have "truthy (Some hijack)" by (simp add: hijack_def)
  then have "step (sample_runtime [register_frame hijack 1704067260000])
        (Frame 0 (show_json (register_frame hijack 1704067260000)) 1704067260000
           (''uuid-3'', 1704067260000) 1704067260000 1704067260000) (two_peers 1704067200000) =
      Some ((two_peers 1704067200000)\<lparr>connectedServers :=
           [(''alpha'', Object_assign ((sample_info ''alpha'' 0 1704067200000)\<lparr>lastSeen := Native 1704067260000\<rparr>) hijack),
            (''beta'', sample_info ''beta'' 1 1704067200000)]\<rparr>)"
    by (intro step_register) simp_all
  moreover have "Object_assign ((sample_info ''alpha'' 0 1704067200000)\<lparr>lastSeen := Native 1704067260000\<rparr>) hijack =
      (sample_info ''alpha'' 0 1704067200000)
                         \<lparr>serverId := JStr ''beta'', lastSeen := Overwritten (JStr ''never''),
                           ws := Overwritten JNull\<rparr>"
    by (simp add: Object_assign_def hijack_def set_prop_def AList.delete_eq sample_info_def
        admission_info_def)
  ultimately show ?thesis
    by (simp add: key_inv_two_peers) (simp add: key_inv_def)
qed

end
